theory Spec2Isabelle
  imports Complex_Main "HOL-Library.Sublist"
begin

section \<open>SCRIP grid descriptions: a model of \<^verbatim>\<open>mpas_analysis/shared/grid/grid.py\<close>\<close>

text \<open>
  The module writes SCRIP files for three kinds of grid: an MPAS mesh, a latitude-longitude
  grid and a logically rectangular grid on a projection.

  Conventions of the model.
  \<^item> A float64 is modelled by an exact \<^typ>\<open>real\<close>. The model is meant where every
    intermediate result is finite: rounding, infinities and NaN are outside it.
  \<^item> A Python or numpy integer is an \<^typ>\<open>int\<close>. The width of the integer variables of an
    input file is chosen by that file, not by the module; arithmetic on them is taken to
    be exact, which leaves out a value at the lower end of its integer type, where
    subtracting 1 wraps around.
  \<^item> A 1D array is a list. A 2D array that is read or sliced is the list of its rows
    together with its number of columns (numpy keeps the second extent of an array with
    no rows); an array that is only built and written, row by row of a fixed length, is
    the list of its rows.
  \<^item> The files are netCDF files that hold the variables the module reads: a missing
    variable (a KeyError) is outside the model, a missing attribute is inside it.
  \<^item> Every exception is a value: a function that can raise returns \<open>error + 'a\<close>, with
    \<open>Inl\<close> for the exception.
  \<^item> \<^verbatim>\<open>sys.argv\<close> is a parameter, a list of strings.
\<close>

subsection \<open>Exceptions and numpy indexing\<close>

datatype error = IndexError | ValueError | AttributeError | ProjError

definition and_then :: "error + 'a \<Rightarrow> ('a \<Rightarrow> error + 'b) \<Rightarrow> error + 'b" where
  \<comment> \<open>sequencing of two statements: an exception raised by the first skips the second\<close>
  "and_then m f = (case m of Inl e \<Rightarrow> Inl e | Inr x \<Rightarrow> f x)"

fun sequence_err :: "(error + 'a) list \<Rightarrow> error + 'a list" where
  "sequence_err [] = Inr []"
| "sequence_err (x # xs) =
     and_then x (\<lambda>v. and_then (sequence_err xs) (\<lambda>vs. Inr (v # vs)))"

text \<open>
  \<^verbatim>\<open>a[i]\<close> on a sequence of length \<open>n\<close>: an index in \<open>[-n, 0)\<close> counts from the end, an index
  outside \<open>[-n, n)\<close> raises IndexError.
\<close>

definition numpy_get :: "'a list \<Rightarrow> int \<Rightarrow> error + 'a" where
  "numpy_get a i =
     (if 0 \<le> i \<and> i < int (length a) then Inr (a ! nat i)
      else if - int (length a) \<le> i \<and> i < 0 then Inr (a ! nat (int (length a) + i))
      else Inl IndexError)"

record 'a array2d =
  ncols :: nat
  rows :: "'a list list"

definition wf_array2d :: "'a array2d \<Rightarrow> bool" where
  "wf_array2d A = list_all (\<lambda>r. length r = ncols A) (rows A)"

definition flat :: "'a array2d \<Rightarrow> 'a list" where
  \<comment> \<open>\<^verbatim>\<open>A.flat\<close>: the entries in row-major order\<close>
  "flat A = concat (rows A)"

text \<open>
  Two 1D index arrays broadcast to a common shape when their lengths agree or one of them
  has length 1; otherwise numpy raises IndexError (shape mismatch).
\<close>

definition broadcast_pairs :: "'a list \<Rightarrow> 'b list \<Rightarrow> error + ('a \<times> 'b) list" where
  "broadcast_pairs xs ys =
     (if length xs = length ys then Inr (zip xs ys)
      else if length xs = 1 then Inr (map (\<lambda>y. (hd xs, y)) ys)
      else if length ys = 1 then Inr (map (\<lambda>x. (x, hd ys)) xs)
      else Inl IndexError)"

definition fancy_index1 :: "'a list \<Rightarrow> int list \<Rightarrow> error + 'a list" where
  \<comment> \<open>\<^verbatim>\<open>a[I]\<close> for a 1D array \<open>a\<close> and an integer array \<open>I\<close>\<close>
  "fancy_index1 a I = sequence_err (map (numpy_get a) I)"

definition fancy_index2 :: "'a array2d \<Rightarrow> int list \<Rightarrow> int list \<Rightarrow> error + 'a list" where
  \<comment> \<open>\<^verbatim>\<open>A[I, J]\<close> for a 2D array \<open>A\<close> and two integer arrays\<close>
  "fancy_index2 A I J =
     and_then (broadcast_pairs I J) (\<lambda>ps.
       sequence_err (map (\<lambda>(i, j). and_then (numpy_get (rows A) i) (\<lambda>r. numpy_get r j)) ps))"

definition assign_column :: "'a list list \<Rightarrow> nat \<Rightarrow> 'a list \<Rightarrow> error + 'a list list" where
  \<comment> \<open>\<^verbatim>\<open>grid[:, k] = vals\<close> (also \<^verbatim>\<open>grid[arange(len(grid)), k] = vals\<close>) for \<open>k\<close> a column of
      \<open>grid\<close>: \<open>vals\<close> has one entry per row, or a single entry that is repeated; any other
      length raises ValueError\<close>
  "assign_column grid k vals =
     (if length vals = length grid then Inr (map (\<lambda>(row, v). row[k := v]) (zip grid vals))
      else if length vals = 1 then Inr (map (\<lambda>row. row[k := hd vals]) grid)
      else Inl ValueError)"

definition meshgrid :: "'a list \<Rightarrow> 'a list \<Rightarrow> 'a array2d \<times> 'a array2d" where
  \<comment> \<open>\<^verbatim>\<open>numpy.meshgrid(x, y)\<close>: both results have shape \<open>(len(y), len(x))\<close>\<close>
  "meshgrid xs ys =
     (\<lparr>ncols = length xs, rows = replicate (length ys) xs\<rparr>,
      \<lparr>ncols = length xs, rows = map (\<lambda>v. replicate (length xs) v) ys\<rparr>)"

fun str_join :: "string \<Rightarrow> string list \<Rightarrow> string" where
  "str_join sep [] = []"
| "str_join sep [s] = s"
| "str_join sep (s # t # ts) = s @ sep @ str_join sep (t # ts)"

subsection \<open>\<^verbatim>\<open>_interp_extrap_corner\<close>\<close>

text \<open>
  \<^verbatim>\<open>
  def _interp_extrap_corner(inField):
      outField = numpy.zeros(len(inField)+1)
      outField[1:-1] = 0.5*(inField[0:-1] + inField[1:])
      # extrapolate the ends
      outField[0] = 1.5*inField[0] - 0.5*inField[1]
      outField[-1] = 1.5*inField[-1] - 0.5*inField[-2]
      return outField
  \<close>
  The two slices \<^verbatim>\<open>inField[0:-1]\<close> and \<^verbatim>\<open>inField[1:]\<close> have the same length, which is also
  the length of \<^verbatim>\<open>outField[1:-1]\<close>, so the slice assignment never raises. The four scalar
  reads raise IndexError on a field with fewer than two entries.
\<close>

definition slice_assign_inner :: "real list \<Rightarrow> real list \<Rightarrow> real list" where
  \<comment> \<open>\<^verbatim>\<open>outField[1:-1] = vals\<close>, for \<open>vals\<close> of the length of the slice\<close>
  "slice_assign_inner outField vals =
     (case outField of [] \<Rightarrow> [] | x # rest \<Rightarrow> x # (vals @ drop (length vals) rest))"

definition interp_extrap_corner :: "real list \<Rightarrow> error + real list" where
  "interp_extrap_corner inField =
     (let outField = replicate (length inField + 1) (0::real);
          outField = slice_assign_inner outField
                       (map (\<lambda>(a, b). 0.5 * (a + b)) (zip (butlast inField) (tl inField)))
      in and_then (numpy_get inField 0) (\<lambda>f0.
         and_then (numpy_get inField 1) (\<lambda>f1.
         let outField = outField[0 := 1.5 * f0 - 0.5 * f1]
         in and_then (numpy_get inField (- 1)) (\<lambda>l1.
            and_then (numpy_get inField (- 2)) (\<lambda>l2.
            Inr (outField[length outField - 1 := 1.5 * l1 - 0.5 * l2]))))))"

subsection \<open>The SCRIP file and \<^verbatim>\<open>_create_scrip\<close>\<close>

text \<open>
  A netCDF variable carries a \<^verbatim>\<open>units\<close> attribute and its data; the data of a variable
  that was created and not yet written is \<open>None\<close>. An attribute set from Python is a string
  or a list of strings.
\<close>

record 'a ncvar =
  var_units :: "string option"
  var_data :: "'a option"

datatype attr = Str string | StrList "string list"

record scrip_file =
  grid_size :: nat
  grid_corners :: nat
  grid_rank :: nat
  grid_center_lat :: "real list ncvar"
  grid_center_lon :: "real list ncvar"
  grid_corner_lat :: "real list list ncvar"
  grid_corner_lon :: "real list list ncvar"
  grid_imask :: "int list ncvar"
  grid_dims :: "int list ncvar"
  grid_area :: "real list ncvar option"
  history :: "attr option"

definition create_scrip :: "nat \<Rightarrow> nat \<Rightarrow> nat \<Rightarrow> string \<Rightarrow> scrip_file" where
  \<comment> \<open>\<^verbatim>\<open>_create_scrip(outFile, grid_size, grid_corners, grid_rank, units)\<close> on a file that was
      just opened for writing\<close>
  "create_scrip gsize gcorners grank units =
     \<lparr>grid_size = gsize, grid_corners = gcorners, grid_rank = grank,
      grid_center_lat = \<lparr>var_units = Some units, var_data = None\<rparr>,
      grid_center_lon = \<lparr>var_units = Some units, var_data = None\<rparr>,
      grid_corner_lat = \<lparr>var_units = Some units, var_data = None\<rparr>,
      grid_corner_lon = \<lparr>var_units = Some units, var_data = None\<rparr>,
      grid_imask = \<lparr>var_units = Some ''unitless'', var_data = None\<rparr>,
      grid_dims = \<lparr>var_units = None, var_data = None\<rparr>,
      grid_area = None,
      history = None\<rparr>"

text \<open>
  Writing a whole variable, \<^verbatim>\<open>var[:] = data\<close>. The netCDF4 library accepts data of the
  variable's shape; the model raises for any other shape (IndexError for a 1D variable,
  ValueError for a 2D one). A scalar is written to every entry.
\<close>

definition put_var1 :: "nat \<Rightarrow> 'a list \<Rightarrow> 'a list ncvar \<Rightarrow> error + 'a list ncvar" where
  "put_var1 n vals v =
     (if length vals = n then Inr (v\<lparr>var_data := Some vals\<rparr>) else Inl IndexError)"

definition put_var2 ::
  "nat \<Rightarrow> nat \<Rightarrow> 'a list list \<Rightarrow> 'a list list ncvar \<Rightarrow> error + 'a list list ncvar" where
  "put_var2 n m vals v =
     (if length vals = n \<and> list_all (\<lambda>r. length r = m) vals
      then Inr (v\<lparr>var_data := Some vals\<rparr>) else Inl ValueError)"

definition put_scalar :: "nat \<Rightarrow> 'a \<Rightarrow> 'a list ncvar \<Rightarrow> 'a list ncvar" where
  "put_scalar n c v = v\<lparr>var_data := Some (replicate n c)\<rparr>"

subsection \<open>\<^verbatim>\<open>MpasMeshDescriptor.to_scrip\<close>\<close>

text \<open>
  The input file of the mesh: the variables and dimensions that \<^verbatim>\<open>to_scrip\<close> reads, and
  the two global attributes it asks for. \<^verbatim>\<open>sphere_radius\<close> is read as an attribute and
  raises AttributeError when absent; \<^verbatim>\<open>history\<close> is tested with \<^verbatim>\<open>hasattr\<close>. The length of
  the dimension \<^verbatim>\<open>maxEdges\<close> is what the method calls \<^verbatim>\<open>maxVertices\<close>.
\<close>

record mesh_file =
  latCell :: "real list"
  lonCell :: "real list"
  latVertex :: "real list"
  lonVertex :: "real list"
  verticesOnCell :: "int array2d"
  nEdgesOnCell :: "int list"
  nCells :: nat
  maxEdges :: nat
  areaCell :: "real list"
  sphere_radius :: "real option"
  mesh_history :: "string option"

text \<open>
  One pass of the loop over \<^verbatim>\<open>iVertex\<close>:
  \<^verbatim>\<open>
  cellIndices = numpy.arange(nCells)
  # repeat the last vertex wherever iVertex > nEdgesOnCell
  localVertexIndices = numpy.minimum(nEdgesOnCell-1, iVertex)
  vertexIndices = verticesOnCell[cellIndices, localVertexIndices] - 1
  grid_corner_lat[cellIndices, iVertex] = latVertex[vertexIndices]
  grid_corner_lon[cellIndices, iVertex] = lonVertex[vertexIndices]
  \<close>
\<close>

definition localVertexIndex :: "int \<Rightarrow> nat \<Rightarrow> int" where
  "localVertexIndex nEdges iVertex = min (nEdges - 1) (int iVertex)"

definition corner_step ::
  "mesh_file \<Rightarrow> nat \<Rightarrow> real list list \<times> real list list
     \<Rightarrow> error + (real list list \<times> real list list)" where
  "corner_step inFile iVertex g =
     (let cellIndices = map int [0..<nCells inFile];
          localVertexIndices = map (\<lambda>n. localVertexIndex n iVertex) (nEdgesOnCell inFile)
      in and_then (fancy_index2 (verticesOnCell inFile) cellIndices localVertexIndices) (\<lambda>ids.
         let vertexIndices = map (\<lambda>v. v - 1) ids
         in and_then (fancy_index1 (latVertex inFile) vertexIndices) (\<lambda>lats.
            and_then (assign_column (fst g) iVertex lats) (\<lambda>grid_corner_lat.
            and_then (fancy_index1 (lonVertex inFile) vertexIndices) (\<lambda>lons.
            and_then (assign_column (snd g) iVertex lons) (\<lambda>grid_corner_lon.
            Inr (grid_corner_lat, grid_corner_lon)))))))"

fun corner_loop ::
  "mesh_file \<Rightarrow> nat list \<Rightarrow> real list list \<times> real list list
     \<Rightarrow> error + (real list list \<times> real list list)" where
  "corner_loop inFile [] g = Inr g"
| "corner_loop inFile (iVertex # rest) g =
     and_then (corner_step inFile iVertex g) (\<lambda>g'. corner_loop inFile rest g')"

definition mesh_corners :: "mesh_file \<Rightarrow> error + (real list list \<times> real list list)" where
  \<comment> \<open>lines 120 to 129: both arrays start as zeros of shape \<open>(nCells, maxVertices)\<close>\<close>
  "mesh_corners inFile =
     (let zeros = replicate (nCells inFile) (replicate (maxEdges inFile) (0::real))
      in corner_loop inFile [0..<maxEdges inFile] (zeros, zeros))"

text \<open>
  The reference for the corner reconstruction, in the words of the specification: the
  corner of cell \<open>c\<close> at output position \<open>p\<close> is found by reading the vertex id at the
  effective local index in the vertex list of the cell, and the latitude and longitude of
  the vertex with that id less one.
\<close>

definition reference_corner :: "mesh_file \<Rightarrow> nat \<Rightarrow> nat \<Rightarrow> error + (real \<times> real)" where
  "reference_corner inFile c p =
     and_then (numpy_get (rows (verticesOnCell inFile)) (int c)) (\<lambda>ids.
     and_then (numpy_get ids (localVertexIndex (nEdgesOnCell inFile ! c) p)) (\<lambda>v.
     and_then (numpy_get (latVertex inFile) (v - 1)) (\<lambda>la.
     and_then (numpy_get (lonVertex inFile) (v - 1)) (\<lambda>lo.
     Inr (la, lo)))))"

definition mesh_newhist :: "string option \<Rightarrow> string list \<Rightarrow> attr" where
  \<comment> \<open>lines 135 to 139\<close>
  "mesh_newhist h argv =
     (case h of
        Some old \<Rightarrow> Str (str_join [CHR 0x0A] [old, str_join '' '' argv])
      | None \<Rightarrow> StrList argv)"

definition MpasMeshDescriptor_to_scrip :: "mesh_file \<Rightarrow> string list \<Rightarrow> error + scrip_file" where
  \<comment> \<open>the statements of \<^verbatim>\<open>to_scrip\<close> in their order; the two scalar writes (\<^verbatim>\<open>grid_dims\<close> and
      \<^verbatim>\<open>grid_imask\<close>) cannot raise and appear in the final record\<close>
  "MpasMeshDescriptor_to_scrip inFile argv =
     (case sphere_radius inFile of
        None \<Rightarrow> Inl AttributeError
      | Some sphereRadius \<Rightarrow>
          (let n = nCells inFile;
               outFile = create_scrip n (maxEdges inFile) 1 ''radians''
           in and_then (put_var1 n (map (\<lambda>a. a / sphereRadius ^ 2) (areaCell inFile))
                          \<lparr>var_units = Some ''radian^2'', var_data = None\<rparr>) (\<lambda>area.
              and_then (put_var1 n (latCell inFile) (grid_center_lat outFile)) (\<lambda>clat.
              and_then (put_var1 n (lonCell inFile) (grid_center_lon outFile)) (\<lambda>clon.
              and_then (mesh_corners inFile) (\<lambda>(corner_lat, corner_lon).
              and_then (put_var2 n (maxEdges inFile) corner_lat (grid_corner_lat outFile)) (\<lambda>klat.
              and_then (put_var2 n (maxEdges inFile) corner_lon (grid_corner_lon outFile)) (\<lambda>klon.
              Inr (outFile\<lparr>grid_area := Some area,
                           grid_center_lat := clat,
                           grid_center_lon := clon,
                           grid_dims := put_scalar 1 (int n) (grid_dims outFile),
                           grid_imask := put_scalar n 1 (grid_imask outFile),
                           grid_corner_lat := klat,
                           grid_corner_lon := klon,
                           history := Some (mesh_newhist (mesh_history inFile) argv)\<rparr>)))))))))"

subsection \<open>\<^verbatim>\<open>_unwrap_corners\<close>\<close>

text \<open>
  \<^verbatim>\<open>
  def _unwrap_corners(inField):
      outField = numpy.zeros(((inField.shape[0]-1)*(inField.shape[1]-1), 4))
      # corners are counterclockwise
      outField[:, 0] = inField[0:-1, 0:-1].flat
      outField[:, 1] = inField[0:-1, 1:].flat
      outField[:, 2] = inField[1:, 1:].flat
      outField[:, 3] = inField[1:, 0:-1].flat
      return outField
  \<close>
  \<^verbatim>\<open>numpy.zeros\<close> raises ValueError for a negative extent, which the product of the two
  differences is when exactly one extent of \<open>inField\<close> is 0 and the other is at least 2.
\<close>

definition unwrap_corners :: "'a::zero array2d \<Rightarrow> error + 'a list list" where
  "unwrap_corners inField =
     (let n = (int (length (rows inField)) - 1) * (int (ncols inField) - 1)
      in if n < 0 then Inl ValueError
         else
           (let outField = replicate (nat n) (replicate 4 0)
            in and_then (assign_column outField 0
                           (concat (map butlast (butlast (rows inField))))) (\<lambda>outField.
               and_then (assign_column outField 1
                           (concat (map tl (butlast (rows inField))))) (\<lambda>outField.
               and_then (assign_column outField 2
                           (concat (map tl (tl (rows inField))))) (\<lambda>outField.
               assign_column outField 3
                           (concat (map butlast (tl (rows inField)))))))))"

subsection \<open>\<^verbatim>\<open>LatLonGridDescriptor\<close>\<close>

text \<open>
  The dataset that \<^verbatim>\<open>read\<close> opens: the values of the latitude and longitude variables
  (1D), their \<^verbatim>\<open>units\<close> attributes and the global \<^verbatim>\<open>history\<close> attribute, each of which
  may be absent. Reading the \<^verbatim>\<open>units\<close> of the latitude variable raises AttributeError when
  the variable has none. The \<^verbatim>\<open>coords\<close> and \<^verbatim>\<open>dims\<close> dictionaries that \<^verbatim>\<open>_set_coords\<close> stores for
  the callers of the class repeat \<^verbatim>\<open>lat\<close>, \<^verbatim>\<open>lon\<close> and \<^verbatim>\<open>units\<close>; \<^verbatim>\<open>to_scrip\<close> does not read them and
  they are not part of the state below.
\<close>

record latlon_dataset =
  ds_lat :: "real list"
  ds_lon :: "real list"
  ds_lat_units :: "string option"
  ds_lon_units :: "string option"
  ds_history :: "string option"

record LatLonGridDescriptor =
  self_lat :: "real list"
  self_lon :: "real list"
  latCorner :: "real list"
  lonCorner :: "real list"
  self_units :: string
  self_history :: attr

definition read_history :: "string option \<Rightarrow> string list \<Rightarrow> attr" where
  \<comment> \<open>lines 215 to 219 (and 384 to 388)\<close>
  "read_history h argv =
     (case h of
        Some old \<Rightarrow> Str (str_join [CHR 0x0A] [old, str_join '' '' argv])
      | None \<Rightarrow> StrList argv)"

definition LatLonGridDescriptor_read ::
  "latlon_dataset \<Rightarrow> string list \<Rightarrow> error + LatLonGridDescriptor" where
  "LatLonGridDescriptor_read ds argv =
     (case ds_lat_units ds of
        None \<Rightarrow> Inl AttributeError
      | Some lat_units \<Rightarrow>
          (let units = (if sublist ''degree'' lat_units then ''degrees'' else ''radians'')
           in and_then (interp_extrap_corner (ds_lon ds)) (\<lambda>lonC.
              and_then (interp_extrap_corner (ds_lat ds)) (\<lambda>latC.
              Inr \<lparr>self_lat = ds_lat ds, self_lon = ds_lon ds, latCorner = latC,
                   lonCorner = lonC, self_units = units,
                   self_history = read_history (ds_history ds) argv\<rparr>))))"

definition centers_of_corners :: "real list \<Rightarrow> real list" where
  \<comment> \<open>\<^verbatim>\<open>0.5*(corner[0:-1] + corner[1:])\<close>\<close>
  "centers_of_corners c = map (\<lambda>(a, b). 0.5 * (a + b)) (zip (butlast c) (tl c))"

definition LatLonGridDescriptor_create ::
  "real list \<Rightarrow> real list \<Rightarrow> string \<Rightarrow> string list \<Rightarrow> LatLonGridDescriptor" where
  "LatLonGridDescriptor_create latC lonC units argv =
     \<lparr>self_lat = centers_of_corners latC, self_lon = centers_of_corners lonC,
      latCorner = latC, lonCorner = lonC, self_units = units, self_history = StrList argv\<rparr>"

definition rect_to_scrip ::
  "scrip_file \<Rightarrow> nat \<Rightarrow> nat \<Rightarrow> real array2d \<Rightarrow> real array2d \<Rightarrow> real array2d \<Rightarrow> real array2d
     \<Rightarrow> attr \<Rightarrow> error + scrip_file" where
  \<comment> \<open>the writes shared by the two rectangular descriptors (lines 283 to 291 and 455 to
      463), for \<open>nx\<close> columns and \<open>ny\<close> rows of cells\<close>
  "rect_to_scrip outFile nx ny Lat Lon LatC LonC hist =
     (let n = grid_size outFile
      in and_then (put_var1 n (flat Lat) (grid_center_lat outFile)) (\<lambda>clat.
         and_then (put_var1 n (flat Lon) (grid_center_lon outFile)) (\<lambda>clon.
         and_then (put_var1 (grid_rank outFile) [int nx, int ny] (grid_dims outFile)) (\<lambda>dims.
         and_then (unwrap_corners LatC) (\<lambda>corner_lat.
         and_then (put_var2 n (grid_corners outFile) corner_lat (grid_corner_lat outFile)) (\<lambda>klat.
         and_then (unwrap_corners LonC) (\<lambda>corner_lon.
         and_then (put_var2 n (grid_corners outFile) corner_lon (grid_corner_lon outFile)) (\<lambda>klon.
         Inr (outFile\<lparr>grid_center_lat := clat,
                      grid_center_lon := clon,
                      grid_dims := dims,
                      grid_imask := put_scalar n 1 (grid_imask outFile),
                      grid_corner_lat := klat,
                      grid_corner_lon := klon,
                      history := Some hist\<rparr>)))))))))"

definition LatLonGridDescriptor_to_scrip :: "LatLonGridDescriptor \<Rightarrow> error + scrip_file" where
  "LatLonGridDescriptor_to_scrip self =
     (let nLat = length (self_lat self);
          nLon = length (self_lon self);
          outFile = create_scrip (nLat * nLon) 4 2 (self_units self);
          (Lon, Lat) = meshgrid (self_lon self) (self_lat self);
          (LonC, LatC) = meshgrid (lonCorner self) (latCorner self)
      in rect_to_scrip outFile nLon nLat Lat Lon LatC LonC (self_history self))"

subsection \<open>\<^verbatim>\<open>ProjectionGridDescriptor\<close>\<close>

text \<open>
  Modelled from the spec: \<^verbatim>\<open>pyproj.transform\<close> belongs to the pyproj library and is not
  part of the repository. The specification (section 4.3) describes it as an inverse
  mapping from planar \<open>(x, y)\<close> to \<open>(lon, lat)\<close> in degrees, applied to every element of a
  batch, which fails when a supplied point lies outside the valid domain of the projection.
  A projection is therefore a domain and a mapping, and the transform of a batch raises
  ProjError as soon as one of its points is outside the domain.
\<close>

record projection =
  proj_domain :: "real \<times> real \<Rightarrow> bool"
  proj_inverse :: "real \<times> real \<Rightarrow> real \<times> real"

definition transform_point :: "projection \<Rightarrow> real \<times> real \<Rightarrow> error + (real \<times> real)" where
  \<comment> \<open>Modelled from the spec: the transform of one point, which \<^verbatim>\<open>pyproj\<close> computes\<close>
  "transform_point P p = (if proj_domain P p then Inr (proj_inverse P p) else Inl ProjError)"

definition pyproj_transform ::
  "projection \<Rightarrow> real array2d \<Rightarrow> real array2d \<Rightarrow> error + (real array2d \<times> real array2d)" where
  \<comment> \<open>Modelled from the spec: \<^verbatim>\<open>pyproj.transform\<close> on two arrays of one shape (both come
      from one call of \<^verbatim>\<open>numpy.meshgrid\<close>), element by element\<close>
  "pyproj_transform P X Y =
     and_then (sequence_err (map (\<lambda>(xr, yr). sequence_err (map (transform_point P) (zip xr yr)))
                                 (zip (rows X) (rows Y)))) (\<lambda>out.
       Inr (\<lparr>ncols = ncols X, rows = map (map fst) out\<rparr>,
            \<lparr>ncols = ncols X, rows = map (map snd) out\<rparr>))"

definition project_to_lat_lon ::
  "projection \<Rightarrow> real array2d \<Rightarrow> real array2d \<Rightarrow> error + (real array2d \<times> real array2d)" where
  \<comment> \<open>\<^verbatim>\<open>_project_to_lat_lon\<close>: the transform returns \<open>(Lon, Lat)\<close>, the method \<open>(Lat, Lon)\<close>\<close>
  "project_to_lat_lon P X Y =
     and_then (pyproj_transform P X Y) (\<lambda>(Lon, Lat). Inr (Lat, Lon))"

record xy_dataset =
  ds_x :: "real list"
  ds_y :: "real list"
  ds_xy_history :: "string option"

record ProjectionGridDescriptor =
  self_projection :: projection
  self_x :: "real list"
  self_y :: "real list"
  xCorner :: "real list"
  yCorner :: "real list"
  coords_lat :: "real array2d"
  coords_lon :: "real array2d"
  proj_history :: attr

definition ProjectionGridDescriptor_init ::
  "projection \<Rightarrow> real list \<Rightarrow> real list \<Rightarrow> attr \<Rightarrow> error + ProjectionGridDescriptor" where
  \<comment> \<open>the common body of \<^verbatim>\<open>read\<close> and \<^verbatim>\<open>create\<close>: \<^verbatim>\<open>_set_coords\<close> projects the cell centres,
      then the corners are located\<close>
  "ProjectionGridDescriptor_init P xs ys hist =
     (let (X, Y) = meshgrid xs ys
      in and_then (project_to_lat_lon P X Y) (\<lambda>(Lat, Lon).
         and_then (interp_extrap_corner xs) (\<lambda>xC.
         and_then (interp_extrap_corner ys) (\<lambda>yC.
         Inr \<lparr>self_projection = P, self_x = xs, self_y = ys, xCorner = xC, yCorner = yC,
              coords_lat = Lat, coords_lon = Lon, proj_history = hist\<rparr>))))"

definition ProjectionGridDescriptor_read ::
  "projection \<Rightarrow> xy_dataset \<Rightarrow> string list \<Rightarrow> error + ProjectionGridDescriptor" where
  "ProjectionGridDescriptor_read P ds argv =
     ProjectionGridDescriptor_init P (ds_x ds) (ds_y ds) (read_history (ds_xy_history ds) argv)"

definition ProjectionGridDescriptor_create ::
  "projection \<Rightarrow> real list \<Rightarrow> real list \<Rightarrow> string list \<Rightarrow> error + ProjectionGridDescriptor" where
  "ProjectionGridDescriptor_create P xs ys argv =
     ProjectionGridDescriptor_init P xs ys (StrList argv)"

definition ProjectionGridDescriptor_to_scrip ::
  "ProjectionGridDescriptor \<Rightarrow> error + scrip_file" where
  "ProjectionGridDescriptor_to_scrip self =
     (let nx = length (self_x self);
          ny = length (self_y self);
          outFile = create_scrip (nx * ny) 4 2 ''degrees'';
          (X, Y) = meshgrid (self_x self) (self_y self);
          (XC, YC) = meshgrid (xCorner self) (yCorner self)
      in and_then (project_to_lat_lon (self_projection self) X Y) (\<lambda>(Lat, Lon).
         and_then (project_to_lat_lon (self_projection self) XC YC) (\<lambda>(LatC, LonC).
         rect_to_scrip outFile nx ny Lat Lon LatC LonC (proj_history self))))"

subsection \<open>Example inputs\<close>

text \<open>
  A mesh of two cells and five vertices, with room for four vertices per cell: a triangle,
  whose fourth entry in \<^verbatim>\<open>verticesOnCell\<close> is the padding 0, and a quadrilateral. The
  second mesh differs in one entry: the second vertex id of the triangle is 0.
\<close>

definition example_mesh :: mesh_file where
  "example_mesh =
     \<lparr>latCell = [0.1, 0.2], lonCell = [1.1, 1.2],
      latVertex = [1, 2, 3, 4, 5], lonVertex = [11, 12, 13, 14, 15],
      verticesOnCell = \<lparr>ncols = 4, rows = [[1, 2, 3, 0], [2, 3, 4, 5]]\<rparr>,
      nEdgesOnCell = [3, 4], nCells = 2, maxEdges = 4,
      areaCell = [100, 200], sphere_radius = Some 10, mesh_history = None\<rparr>"


text \<open>
  A lat-lon grid made from corners, a projection that is defined on a disc of radius 100
  and scales both coordinates by one tenth, and a grid on that projection.
\<close>

definition example_latlon :: LatLonGridDescriptor where
  "example_latlon =
     LatLonGridDescriptor_create [- 5, 5, 15, 25] [- 5, 5, 15] ''degrees'' [''prog'']"

definition example_projection :: projection where
  "example_projection =
     \<lparr>proj_domain = (\<lambda>(a, b). a * a + b * b \<le> 10000),
      proj_inverse = (\<lambda>(a, b). (a / 10, b / 10))\<rparr>"

definition example_projected :: ProjectionGridDescriptor where
  "example_projected =
     \<lparr>self_projection = example_projection, self_x = [0, 10], self_y = [0, 10, 20],
      xCorner = [- 5, 5, 15], yCorner = [- 5, 5, 15, 25],
      coords_lat = \<lparr>ncols = 2, rows = [[0, 0], [1, 1], [2, 2]]\<rparr>,
      coords_lon = \<lparr>ncols = 2, rows = [[0, 1], [0, 1], [0, 1]]\<rparr>,
      proj_history = StrList [''prog'']\<rparr>"

subsection \<open>Properties of an exported file\<close>

definition mask_and_units :: "scrip_file \<Rightarrow> string \<Rightarrow> bool" where
  \<comment> \<open>every entry of the mask is 1, and the centre and corner variables carry the units \<open>u\<close>\<close>
  "mask_and_units out u \<longleftrightarrow>
     var_data (grid_imask out) = Some (replicate (grid_size out) 1)
     \<and> var_units (grid_center_lat out) = Some u
     \<and> var_units (grid_center_lon out) = Some u
     \<and> var_units (grid_corner_lat out) = Some u
     \<and> var_units (grid_corner_lon out) = Some u"

section \<open>Properties\<close>

lemma length_centers_of_corners: "length (centers_of_corners cs) = length cs - 1"
  by (simp add: centers_of_corners_def)

lemma centers_of_corners_nth:
  "i < length cs - 1 \<Longrightarrow> centers_of_corners cs ! i = 0.5 * (cs ! i + cs ! Suc i)"
  by (simp add: centers_of_corners_def nth_butlast nth_tl)

lemma interp_extrap_corner_closed:
  assumes "2 \<le> length cs"
  shows "interp_extrap_corner cs =
     Inr ((1.5 * cs ! 0 - 0.5 * cs ! 1) # centers_of_corners cs @
          [1.5 * cs ! (length cs - 1) - 0.5 * cs ! (length cs - 2)])"
proof -
  let ?n = "length cs"
  have g0: "numpy_get cs 0 = Inr (cs ! 0)"
    using assms by (auto simp add: numpy_get_def)
  have g1: "numpy_get cs 1 = Inr (cs ! 1)"
    using assms by (simp add: numpy_get_def)
  have gm1: "numpy_get cs (- 1) = Inr (cs ! (?n - 1))"
    using assms by (auto simp add: numpy_get_def nat_diff_distrib')
  have gm2: "numpy_get cs (- 2) = Inr (cs ! (?n - 2))"
    using assms by (auto simp add: numpy_get_def nat_diff_distrib')
  have d: "?n - (?n - Suc 0) = Suc 0"
    using assms by simp
  have sl: "slice_assign_inner (replicate (?n + 1) 0) (centers_of_corners cs)
              = 0 # centers_of_corners cs @ [0]"
    by (simp add: slice_assign_inner_def length_centers_of_corners d)
  show ?thesis
    unfolding interp_extrap_corner_def Let_def centers_of_corners_def[symmetric] sl g0 g1 gm1 gm2
    using assms by (simp add: and_then_def length_centers_of_corners nth_append list_update_append)
qed

subsection \<open>Corner interpolation\<close>

text \<open>
  Claim C2. For a sequence of \<open>N \<ge> 2\<close> centre coordinates the corner interpolator returns
  \<open>N + 1\<close> corners: every interior corner \<open>i\<close> (\<open>1 \<le> i \<le> N - 1\<close>) is the midpoint
  \<open>0.5 * (centers[i-1] + centers[i])\<close>, corner 0 is \<open>1.5 * centers[0] - 0.5 * centers[1]\<close> and
  corner \<open>N\<close> is \<open>1.5 * centers[N-1] - 0.5 * centers[N-2]\<close>. Centres \<open>[0, 10, 20]\<close> give corners
  \<open>[-5, 5, 15, 25]\<close> and centres \<open>[0, 10]\<close> give \<open>[-5, 5, 15]\<close>. Monotonicity of the centres
  is not needed.
\<close>

theorem interp_extrap_corner_midpoints:
  "(2 \<le> length centers \<longrightarrow>
      (\<exists>corners. interp_extrap_corner centers = Inr corners
         \<and> length corners = length centers + 1
         \<and> (\<forall>i. 1 \<le> i \<and> i \<le> length centers - 1 \<longrightarrow>
                corners ! i = 0.5 * (centers ! (i - 1) + centers ! i))
         \<and> corners ! 0 = 1.5 * centers ! 0 - 0.5 * centers ! 1
         \<and> corners ! length centers =
             1.5 * centers ! (length centers - 1) - 0.5 * centers ! (length centers - 2)))
   \<and> interp_extrap_corner [0, 10, 20] = Inr [- 5, 5, 15, 25]
   \<and> interp_extrap_corner [0, 10] = Inr [- 5, 5, 15]"
proof (intro conjI impI)
  assume n: "2 \<le> length centers"
  let ?out = "(1.5 * centers ! 0 - 0.5 * centers ! 1) # centers_of_corners centers @
          [1.5 * centers ! (length centers - 1) - 0.5 * centers ! (length centers - 2)]"
  have mid: "?out ! i = 0.5 * (centers ! (i - 1) + centers ! i)"
    if a: "1 \<le> i \<and> i \<le> length centers - 1" for i
  proof -
    obtain j where j: "i = Suc j" using a by (cases i) auto
    have "j < length centers - 1" using a j by simp
    then show ?thesis
      by (simp add: j nth_append length_centers_of_corners centers_of_corners_nth)
  qed
  have lastc: "?out ! length centers =
      1.5 * centers ! (length centers - 1) - 0.5 * centers ! (length centers - 2)"
  proof -
    obtain j where j: "length centers = Suc j" using n by (cases "length centers") auto
    show ?thesis
      by (simp add: j nth_append length_centers_of_corners)
  qed
  show "\<exists>corners. interp_extrap_corner centers = Inr corners
         \<and> length corners = length centers + 1
         \<and> (\<forall>i. 1 \<le> i \<and> i \<le> length centers - 1 \<longrightarrow>
                corners ! i = 0.5 * (centers ! (i - 1) + centers ! i))
         \<and> corners ! 0 = 1.5 * centers ! 0 - 0.5 * centers ! 1
         \<and> corners ! length centers =
             1.5 * centers ! (length centers - 1) - 0.5 * centers ! (length centers - 2)"
  proof (intro exI conjI allI impI)
    show "interp_extrap_corner centers = Inr ?out"
      by (rule interp_extrap_corner_closed [OF n])
    show "length ?out = length centers + 1"
      using n by (simp add: length_centers_of_corners)
    show "?out ! 0 = 1.5 * centers ! 0 - 0.5 * centers ! 1"
      by simp
    show "?out ! length centers =
      1.5 * centers ! (length centers - 1) - 0.5 * centers ! (length centers - 2)"
      by (rule lastc)
  next
    fix i assume "1 \<le> i \<and> i \<le> length centers - 1"
    then show "?out ! i = 0.5 * (centers ! (i - 1) + centers ! i)"
      by (rule mid)
  qed
next
  show "interp_extrap_corner [0, 10, 20] = Inr [- 5, 5, 15, 25]"
    by (simp add: interp_extrap_corner_closed centers_of_corners_def)
next
  show "interp_extrap_corner [0, 10] = Inr [- 5, 5, 15]"
    by (simp add: interp_extrap_corner_closed centers_of_corners_def)
qed

theorem interp_extrap_corner_midpoints_witness:
  "2 \<le> length [1, 4, 9 :: real]
   \<and> (\<exists>corners. interp_extrap_corner [1, 4, 9] = Inr corners \<and> length corners = 4
         \<and> corners ! 0 = - 0.5 \<and> corners ! 1 = 2.5 \<and> corners ! 2 = 6.5 \<and> corners ! 3 = 11.5)"
proof -
  have h: "2 \<le> length [1, 4, 9 :: real]" by simp
  from interp_extrap_corner_midpoints [of "[1, 4, 9]"] h
  obtain corners where c: "interp_extrap_corner [1, 4, 9] = Inr corners"
    "length corners = length [1, 4, 9 :: real] + 1"
    "\<forall>i. 1 \<le> i \<and> i \<le> length [1, 4, 9 :: real] - 1 \<longrightarrow>
                corners ! i = 0.5 * ([1, 4, 9] ! (i - 1) + [1, 4, 9] ! i)"
    "corners ! 0 = 1.5 * [1, 4, 9] ! 0 - 0.5 * [1, 4, 9] ! 1"
    "corners ! length [1, 4, 9 :: real] =
             1.5 * [1, 4, 9] ! (length [1, 4, 9 :: real] - 1) - 0.5 * [1, 4, 9] ! (length [1, 4, 9 :: real] - 2)"
    by blast
  have "corners ! 1 = 2.5" using c(3) [rule_format, of 1] by simp
  moreover have "corners ! 2 = 6.5" using c(3) [rule_format, of 2] by simp
  moreover have "corners ! 3 = 11.5" using c(5) by (simp add: numeral_3_eq_3)
  moreover have "corners ! 0 = - 0.5" using c(4) by simp
  ultimately show ?thesis using h c(1) c(2) by auto
qed
subsection \<open>Corner unwrapping\<close>

lemma length_concat_uniform:
  "\<forall>row \<in> set xss. length row = m \<Longrightarrow> length (concat xss) = length xss * m"
  by (induction xss) auto

lemma concat_nth_uniform:
  "\<forall>row \<in> set xss. length row = m \<Longrightarrow> r < length xss \<Longrightarrow> c < m
     \<Longrightarrow> concat xss ! (r * m + c) = xss ! r ! c"
proof (induction xss arbitrary: r)
  case Nil
  then show ?case by simp
next
  case (Cons row xss)
  show ?case
  proof (cases r)
    case 0
    with Cons.prems show ?thesis by (simp add: nth_append)
  next
    case (Suc r')
    with Cons.prems have "concat xss ! (r' * m + c) = xss ! r' ! c"
      by (intro Cons.IH) auto
    with Cons.prems Suc show ?thesis
      by (simp add: nth_append)
  qed
qed

lemma assign_column_same_length:
  "length vals = length grid \<Longrightarrow>
     assign_column grid k vals = Inr (map (\<lambda>(row, v). row[k := v]) (zip grid vals))"
  by (simp add: assign_column_def)

lemma four_columns:
  assumes "length a = n" "length b = n" "length c = n" "length d = n"
  shows "and_then (assign_column (replicate n (replicate 4 z)) 0 a) (\<lambda>g.
         and_then (assign_column g 1 b) (\<lambda>g.
         and_then (assign_column g 2 c) (\<lambda>g. assign_column g 3 d)))
       = Inr (map (\<lambda>i. [a ! i, b ! i, c ! i, d ! i]) [0..<n])"
proof -
  let ?g0 = "replicate n (replicate 4 z)"
  let ?g1 = "map (\<lambda>(row, v). row[0 := v]) (zip ?g0 a)"
  let ?g2 = "map (\<lambda>(row, v). row[1 := v]) (zip ?g1 b)"
  let ?g3 = "map (\<lambda>(row, v). row[2 := v]) (zip ?g2 c)"
  let ?g4 = "map (\<lambda>(row, v). row[3 := v]) (zip ?g3 d)"
  have s1: "assign_column ?g0 0 a = Inr ?g1"
    using assms by (simp add: assign_column_same_length)
  have s2: "assign_column ?g1 1 b = Inr ?g2"
    using assms by (simp add: assign_column_same_length)
  have s3: "assign_column ?g2 2 c = Inr ?g3"
    using assms by (simp add: assign_column_same_length)
  have s4: "assign_column ?g3 3 d = Inr ?g4"
    using assms by (simp add: assign_column_same_length)
  have eq: "?g4 = map (\<lambda>i. [a ! i, b ! i, c ! i, d ! i]) [0..<n]"
    using assms by (intro nth_equalityI) (simp_all add: numeral_eq_Suc)
  show ?thesis
    by (simp only: and_then_def s1 s2 s3 s4 sum.case eq)
qed


lemma in_set_tl: "v \<in> set (tl xs) \<Longrightarrow> v \<in> set xs"
  by (cases xs) auto

text \<open>
  Claim C3. For a corner lattice of shape \<open>(ny + 1, nx + 1)\<close> the corner unwrapper returns
  \<open>ny * nx\<close> rows of four entries; the row of cell \<open>(r, c)\<close>, at position \<open>r * nx + c\<close>, is
  \<open>lattice[r, c]\<close>, \<open>lattice[r, c+1]\<close>, \<open>lattice[r+1, c+1]\<close>, \<open>lattice[r+1, c]\<close>. The
  function is defined for every element type with a zero, and each output entry is an
  entry of the lattice: no arithmetic is done on the values.
\<close>

theorem unwrap_corners_cells:
  assumes nrows: "length (rows lattice) = ny + 1"
    and cols: "ncols lattice = nx + 1"
    and wf: "wf_array2d lattice"
  shows "\<exists>out. unwrap_corners lattice = Inr out \<and> length out = ny * nx
          \<and> (\<forall>r < ny. \<forall>c < nx.
                out ! (r * nx + c) =
                  [rows lattice ! r ! c, rows lattice ! r ! (c + 1),
                   rows lattice ! (r + 1) ! (c + 1), rows lattice ! (r + 1) ! c])"
proof -
  let ?R = "rows lattice"
  let ?a = "map butlast (butlast ?R)" and ?b = "map tl (butlast ?R)"
  let ?c = "map tl (tl ?R)" and ?d = "map butlast (tl ?R)"
  have len: "\<forall>row \<in> set ?R. length row = nx + 1"
    using wf cols by (simp add: wf_array2d_def list_all_iff)
  have ua: "\<forall>row \<in> set ?a. length row = nx" using len by (auto dest: in_set_butlastD)
  have ub: "\<forall>row \<in> set ?b. length row = nx" using len by (auto dest: in_set_butlastD)
  have uc: "\<forall>row \<in> set ?c. length row = nx" using len by (auto dest: in_set_tl)
  have ud: "\<forall>row \<in> set ?d. length row = nx" using len by (auto dest: in_set_tl)
  have la: "length ?a = ny" and lb: "length ?b = ny" and lc: "length ?c = ny" and ld: "length ?d = ny"
    using nrows by simp_all
  have n0: "\<not> (int (length ?R) - 1) * (int (ncols lattice) - 1) < 0"
    using nrows cols by (simp add: not_less)
  have n1: "nat ((int (length ?R) - 1) * (int (ncols lattice) - 1)) = ny * nx"
    using nrows cols by (simp add: nat_mult_distrib)
  have ca: "length (concat ?a) = ny * nx" using length_concat_uniform [OF ua] la by simp
  have cb: "length (concat ?b) = ny * nx" using length_concat_uniform [OF ub] lb by simp
  have cc: "length (concat ?c) = ny * nx" using length_concat_uniform [OF uc] lc by simp
  have cd: "length (concat ?d) = ny * nx" using length_concat_uniform [OF ud] ld by simp
  let ?out = "map (\<lambda>i. [concat ?a ! i, concat ?b ! i, concat ?c ! i, concat ?d ! i]) [0..<ny * nx]"
  have run: "unwrap_corners lattice = Inr ?out"
    unfolding unwrap_corners_def Let_def
    by (simp only: n0 n1 if_False four_columns [OF ca cb cc cd])
  have cell: "?out ! (r * nx + c) =
                  [?R ! r ! c, ?R ! r ! (c + 1), ?R ! (r + 1) ! (c + 1), ?R ! (r + 1) ! c]"
    if r: "r < ny" and c: "c < nx" for r c
  proof -
    have "r * nx + c < r * nx + nx" using c by simp
    also have "\<dots> = Suc r * nx" by simp
    also have "\<dots> \<le> ny * nx" using r by (intro mult_le_mono1) simp
    finally have i: "r * nx + c < ny * nx" .
    have lr: "length (?R ! r) = nx + 1" "length (?R ! Suc r) = nx + 1"
      using len r nrows by simp_all
    have a: "concat ?a ! (r * nx + c) = ?R ! r ! c"
      using concat_nth_uniform [OF ua, of r c] r c la lr nrows by (simp add: nth_butlast)
    have b: "concat ?b ! (r * nx + c) = ?R ! r ! (c + 1)"
      using concat_nth_uniform [OF ub, of r c] r c lb lr nrows by (simp add: nth_butlast nth_tl)
    have cq: "concat ?c ! (r * nx + c) = ?R ! (r + 1) ! (c + 1)"
      using concat_nth_uniform [OF uc, of r c] r c lc lr nrows by (simp add: nth_tl)
    have d: "concat ?d ! (r * nx + c) = ?R ! (r + 1) ! c"
      using concat_nth_uniform [OF ud, of r c] r c ld lr nrows by (simp add: nth_butlast nth_tl)
    show ?thesis using i a b cq d by simp
  qed
  show ?thesis
    using run cell by (intro exI [of _ ?out]) simp
qed

theorem unwrap_corners_cells_witness:
  "length (rows \<lparr>ncols = 2, rows = [[1, 2], [3, 4], [5, 6 :: int]]\<rparr>) = 2 + 1
   \<and> ncols \<lparr>ncols = 2, rows = [[1, 2], [3, 4], [5, 6 :: int]]\<rparr> = 1 + 1
   \<and> wf_array2d \<lparr>ncols = 2, rows = [[1, 2], [3, 4], [5, 6 :: int]]\<rparr>
   \<and> (\<exists>out. unwrap_corners \<lparr>ncols = 2, rows = [[1, 2], [3, 4], [5, 6 :: int]]\<rparr> = Inr out
          \<and> length out = 2 \<and> out ! 0 = [1, 2, 4, 3] \<and> out ! 1 = [3, 4, 6, 5])"
proof -
  let ?L = "\<lparr>ncols = 2, rows = [[1, 2], [3, 4], [5, 6 :: int]]\<rparr>"
  have h1: "length (rows ?L) = 2 + 1" by simp
  have h2: "ncols ?L = 1 + 1" by simp
  have h3: "wf_array2d ?L" by (simp add: wf_array2d_def)
  from unwrap_corners_cells [OF h1 h2 h3]
  obtain out where o: "unwrap_corners ?L = Inr out" "length out = 2 * 1"
    and cells: "\<forall>r < 2. \<forall>c < 1. out ! (r * 1 + c) =
                  [rows ?L ! r ! c, rows ?L ! r ! (c + 1),
                   rows ?L ! (r + 1) ! (c + 1), rows ?L ! (r + 1) ! c]"
    by blast
  have "out ! 0 = [1, 2, 4, 3]" using cells [rule_format, of 0 0] by simp
  moreover have "out ! 1 = [3, 4, 6, 5]" using cells [rule_format, of 1 0] by simp
  ultimately show ?thesis using h1 h2 h3 o by simp
qed
subsection \<open>Sequencing and indexing\<close>

lemma and_then_InrE:
  assumes "and_then m f = Inr y"
  obtains v where "m = Inr v" and "f v = Inr y"
  using assms by (cases m) (simp_all add: and_then_def)

lemma and_then_Inr [simp]: "and_then (Inr v) f = f v"
  by (simp add: and_then_def)

lemma and_then_Inl [simp]: "and_then (Inl e) f = Inl e"
  by (simp add: and_then_def)

lemma sequence_err_map_Inr_id: "sequence_err (map Inr vs) = Inr vs"
  by (induction vs) simp_all

lemma sequence_err_Inr_D: "sequence_err xs = Inr vs \<Longrightarrow> xs = map Inr vs"
proof (induction xs arbitrary: vs)
  case Nil
  then show ?case by simp
next
  case (Cons x xs)
  from Cons.prems have "and_then x (\<lambda>v. and_then (sequence_err xs) (\<lambda>ws. Inr (v # ws))) = Inr vs"
    by simp
  then obtain v where x: "x = Inr v"
    and r: "and_then (sequence_err xs) (\<lambda>ws. Inr (v # ws)) = Inr vs"
    by (rule and_then_InrE)
  from r obtain ws where ws: "sequence_err xs = Inr ws" and vs: "Inr (v # ws) = (Inr vs :: error + 'a list)"
    by (rule and_then_InrE)
  from Cons.IH [OF ws] x vs show ?case by auto
qed

lemma sequence_err_eq_Inr:
  "sequence_err xs = Inr vs \<longleftrightarrow> xs = map Inr vs"
  using sequence_err_Inr_D sequence_err_map_Inr_id by blast

lemma sequence_err_map_Inr:
  assumes "sequence_err (map f xs) = Inr vs"
  shows "length vs = length xs" and "i < length xs \<Longrightarrow> f (xs ! i) = Inr (vs ! i)"
proof -
  from assms have eq: "map f xs = map Inr vs" by (simp add: sequence_err_eq_Inr)
  then show "length vs = length xs" by (metis length_map)
  then show "i < length xs \<Longrightarrow> f (xs ! i) = Inr (vs ! i)"
    using eq by (metis nth_map)
qed



lemma numpy_get_eq_Inr:
  "numpy_get xs i = Inr v \<longleftrightarrow>
     - int (length xs) \<le> i \<and> i < int (length xs)
     \<and> v = xs ! nat (if i < 0 then int (length xs) + i else i)"
  by (auto simp: numpy_get_def Let_def)

lemma fancy_index1_Inr:
  assumes "fancy_index1 a I = Inr vs"
  shows "length vs = length I" and "i < length I \<Longrightarrow> numpy_get a (I ! i) = Inr (vs ! i)"
  using assms sequence_err_map_Inr [of "numpy_get a" I vs] by (simp_all add: fancy_index1_def)


lemma fancy_index2_Inr:
  assumes "fancy_index2 A I J = Inr vs" and "length I = length J"
  shows "length vs = length I"
    and "i < length I \<Longrightarrow>
           and_then (numpy_get (rows A) (I ! i)) (\<lambda>r. numpy_get r (J ! i)) = Inr (vs ! i)"
proof -
  let ?f = "\<lambda>(i, j). and_then (numpy_get (rows A) i) (\<lambda>r. numpy_get r j)"
  from assms have s: "sequence_err (map ?f (zip I J)) = Inr vs"
    by (simp add: fancy_index2_def broadcast_pairs_def)
  from sequence_err_map_Inr(1) [OF s] assms(2) show "length vs = length I" by simp
  assume "i < length I"
  with sequence_err_map_Inr(2) [OF s, of i] assms(2)
  show "and_then (numpy_get (rows A) (I ! i)) (\<lambda>r. numpy_get r (J ! i)) = Inr (vs ! i)"
    by simp
qed



subsection \<open>Corner reconstruction on a mesh\<close>

lemma assign_column_nth:
  assumes "assign_column grid k vals = Inr grid'" and "length vals = length grid"
  shows "length grid' = length grid" and "c < length grid \<Longrightarrow> grid' ! c = (grid ! c)[k := vals ! c]"
  using assms by (auto simp: assign_column_def)

lemma corner_step_Inr:
  assumes step: "corner_step m i g = Inr g'"
    and ne: "length (nEdgesOnCell m) = nCells m"
    and g1: "length (fst g) = nCells m" and g2: "length (snd g) = nCells m"
  shows "length (fst g') = nCells m" and "length (snd g') = nCells m"
    and "c < nCells m \<Longrightarrow>
          \<exists>la lo. reference_corner m c i = Inr (la, lo)
            \<and> fst g' ! c = (fst g ! c)[i := la] \<and> snd g' ! c = (snd g ! c)[i := lo]"
proof -
  let ?I = "map int [0..<nCells m]"
  let ?J = "map (\<lambda>n. localVertexIndex n i) (nEdgesOnCell m)"
  from step obtain ids where ids: "fancy_index2 (verticesOnCell m) ?I ?J = Inr ids"
    and r1: "and_then (fancy_index1 (latVertex m) (map (\<lambda>v. v - 1) ids)) (\<lambda>lats.
            and_then (assign_column (fst g) i lats) (\<lambda>grid_corner_lat.
            and_then (fancy_index1 (lonVertex m) (map (\<lambda>v. v - 1) ids)) (\<lambda>lons.
            and_then (assign_column (snd g) i lons) (\<lambda>grid_corner_lon.
            Inr (grid_corner_lat, grid_corner_lon))))) = Inr g'"
    unfolding corner_step_def Let_def by (rule and_then_InrE)
  from r1 obtain lats where lats: "fancy_index1 (latVertex m) (map (\<lambda>v. v - 1) ids) = Inr lats"
    and r2: "and_then (assign_column (fst g) i lats) (\<lambda>grid_corner_lat.
            and_then (fancy_index1 (lonVertex m) (map (\<lambda>v. v - 1) ids)) (\<lambda>lons.
            and_then (assign_column (snd g) i lons) (\<lambda>grid_corner_lon.
            Inr (grid_corner_lat, grid_corner_lon)))) = Inr g'"
    by (rule and_then_InrE)
  from r2 obtain glat where glat: "assign_column (fst g) i lats = Inr glat"
    and r3: "and_then (fancy_index1 (lonVertex m) (map (\<lambda>v. v - 1) ids)) (\<lambda>lons.
            and_then (assign_column (snd g) i lons) (\<lambda>grid_corner_lon.
            Inr (glat, grid_corner_lon))) = Inr g'"
    by (rule and_then_InrE)
  from r3 obtain lons where lons: "fancy_index1 (lonVertex m) (map (\<lambda>v. v - 1) ids) = Inr lons"
    and r4: "and_then (assign_column (snd g) i lons) (\<lambda>grid_corner_lon.
            Inr (glat, grid_corner_lon)) = Inr g'"
    by (rule and_then_InrE)
  from r4 obtain glon where glon: "assign_column (snd g) i lons = Inr glon"
    and g': "Inr (glat, glon) = (Inr g' :: error + (real list list \<times> real list list))"
    by (rule and_then_InrE)
  have IJ: "length ?I = length ?J" using ne by simp
  have lids: "length ids = nCells m"
    using fancy_index2_Inr(1) [OF ids IJ] by simp
  have llats: "length lats = nCells m"
    using fancy_index1_Inr(1) [OF lats] lids by simp
  have llons: "length lons = nCells m"
    using fancy_index1_Inr(1) [OF lons] lids by simp
  have eq: "g' = (glat, glon)" using g' by simp
  show "length (fst g') = nCells m"
    using assign_column_nth(1) [OF glat] llats g1 eq by simp
  show "length (snd g') = nCells m"
    using assign_column_nth(1) [OF glon] llons g2 eq by simp
  assume c: "c < nCells m"
  have id_c: "and_then (numpy_get (rows (verticesOnCell m)) (int c))
                (\<lambda>r. numpy_get r (localVertexIndex (nEdgesOnCell m ! c) i)) = Inr (ids ! c)"
    using fancy_index2_Inr(2) [OF ids IJ, of c] c ne by simp
  have la_c: "numpy_get (latVertex m) (ids ! c - 1) = Inr (lats ! c)"
    using fancy_index1_Inr(2) [OF lats, of c] c lids by simp
  have lo_c: "numpy_get (lonVertex m) (ids ! c - 1) = Inr (lons ! c)"
    using fancy_index1_Inr(2) [OF lons, of c] c lids by simp
  from id_c obtain r where r: "numpy_get (rows (verticesOnCell m)) (int c) = Inr r"
    and v: "numpy_get r (localVertexIndex (nEdgesOnCell m ! c) i) = Inr (ids ! c)"
    by (rule and_then_InrE)
  have ref: "reference_corner m c i = Inr (lats ! c, lons ! c)"
    by (simp add: reference_corner_def r v la_c lo_c)
  have "fst g' ! c = (fst g ! c)[i := lats ! c]"
    using assign_column_nth(2) [OF glat, of c] llats g1 c eq by simp
  moreover have "snd g' ! c = (snd g ! c)[i := lons ! c]"
    using assign_column_nth(2) [OF glon, of c] llons g2 c eq by simp
  ultimately show "\<exists>la lo. reference_corner m c i = Inr (la, lo)
            \<and> fst g' ! c = (fst g ! c)[i := la] \<and> snd g' ! c = (snd g ! c)[i := lo]"
    using ref by blast
qed


lemma corner_loop_Inr:
  assumes "corner_loop m js g = Inr g'"
    and "length (nEdgesOnCell m) = nCells m"
    and "length (fst g) = nCells m" and "length (snd g) = nCells m"
  shows "length (fst g') = nCells m \<and> length (snd g') = nCells m
     \<and> (\<forall>c < nCells m.
           length (fst g' ! c) = length (fst g ! c) \<and> length (snd g' ! c) = length (snd g ! c)
         \<and> (\<forall>j. j \<notin> set js \<longrightarrow> fst g' ! c ! j = fst g ! c ! j \<and> snd g' ! c ! j = snd g ! c ! j)
         \<and> (\<forall>j \<in> set js. j < length (fst g ! c) \<and> j < length (snd g ! c) \<longrightarrow>
               reference_corner m c j = Inr (fst g' ! c ! j, snd g' ! c ! j)))"
  using assms
proof (induction js arbitrary: g)
  case Nil
  then show ?case by simp
next
  case (Cons i js)
  from Cons.prems(1) obtain g1 where step: "corner_step m i g = Inr g1"
    and loop: "corner_loop m js g1 = Inr g'"
    by (auto elim: and_then_InrE)
  note s = corner_step_Inr [OF step Cons.prems(2) Cons.prems(3) Cons.prems(4)]
  note IH = Cons.IH [OF loop Cons.prems(2) s(1) s(2)]
  have percell: "length (fst g' ! c) = length (fst g ! c) \<and> length (snd g' ! c) = length (snd g ! c)
         \<and> (\<forall>j. j \<notin> set (i # js) \<longrightarrow>
               fst g' ! c ! j = fst g ! c ! j \<and> snd g' ! c ! j = snd g ! c ! j)
         \<and> (\<forall>j \<in> set (i # js). j < length (fst g ! c) \<and> j < length (snd g ! c) \<longrightarrow>
               reference_corner m c j = Inr (fst g' ! c ! j, snd g' ! c ! j))"
    if c: "c < nCells m" for c
  proof -
    from s(3) [OF c] obtain la lo where ref: "reference_corner m c i = Inr (la, lo)"
      and f1: "fst g1 ! c = (fst g ! c)[i := la]" and s1: "snd g1 ! c = (snd g ! c)[i := lo]"
      by blast
    from IH c have l1: "length (fst g' ! c) = length (fst g1 ! c)"
      and l2: "length (snd g' ! c) = length (snd g1 ! c)"
      and keep: "\<And>j. j \<notin> set js \<Longrightarrow> fst g' ! c ! j = fst g1 ! c ! j \<and> snd g' ! c ! j = snd g1 ! c ! j"
      and fin: "\<And>j. j \<in> set js \<Longrightarrow> j < length (fst g1 ! c) \<Longrightarrow> j < length (snd g1 ! c) \<Longrightarrow>
               reference_corner m c j = Inr (fst g' ! c ! j, snd g' ! c ! j)"
      by auto
    have a: "length (fst g' ! c) = length (fst g ! c)" using l1 f1 by simp
    have b: "length (snd g' ! c) = length (snd g ! c)" using l2 s1 by simp
    have k: "fst g' ! c ! j = fst g ! c ! j \<and> snd g' ! c ! j = snd g ! c ! j"
      if "j \<notin> set (i # js)" for j
      using keep [of j] f1 s1 that by simp
    have r: "reference_corner m c j = Inr (fst g' ! c ! j, snd g' ! c ! j)"
      if j: "j \<in> set (i # js)" and lt: "j < length (fst g ! c) \<and> j < length (snd g ! c)" for j
    proof (cases "j \<in> set js")
      case True
      then show ?thesis using fin [of j] lt f1 s1 by simp
    next
      case False
      with j have ji: "j = i" by simp
      from keep [OF False] have "fst g' ! c ! j = la" "snd g' ! c ! j = lo"
        using f1 s1 lt ji by simp_all
      then show ?thesis using ref ji by simp
    qed
    show ?thesis using a b k r by blast
  qed
  have "length (fst g') = nCells m" "length (snd g') = nCells m"
    using IH by simp_all
  then show ?case using percell by blast
qed

lemma mesh_corners_Inr:
  assumes ok: "mesh_corners m = Inr (clat, clon)"
    and ne: "length (nEdgesOnCell m) = nCells m"
  shows "length clat = nCells m" and "length clon = nCells m"
    and "c < nCells m \<Longrightarrow> length (clat ! c) = maxEdges m \<and> length (clon ! c) = maxEdges m"
    and "c < nCells m \<Longrightarrow> p < maxEdges m \<Longrightarrow>
           reference_corner m c p = Inr (clat ! c ! p, clon ! c ! p)"
proof -
  let ?z = "replicate (nCells m) (replicate (maxEdges m) (0::real))"
  from ok have loop: "corner_loop m [0..<maxEdges m] (?z, ?z) = Inr (clat, clon)"
    by (simp add: mesh_corners_def Let_def)
  have inv: "length (fst (clat, clon)) = nCells m \<and> length (snd (clat, clon)) = nCells m
     \<and> (\<forall>c < nCells m.
           length (fst (clat, clon) ! c) = length (fst (?z, ?z) ! c)
         \<and> length (snd (clat, clon) ! c) = length (snd (?z, ?z) ! c)
         \<and> (\<forall>j. j \<notin> set [0..<maxEdges m] \<longrightarrow>
               fst (clat, clon) ! c ! j = fst (?z, ?z) ! c ! j
             \<and> snd (clat, clon) ! c ! j = snd (?z, ?z) ! c ! j)
         \<and> (\<forall>j \<in> set [0..<maxEdges m].
               j < length (fst (?z, ?z) ! c) \<and> j < length (snd (?z, ?z) ! c) \<longrightarrow>
               reference_corner m c j = Inr (fst (clat, clon) ! c ! j, snd (clat, clon) ! c ! j)))"
    by (rule corner_loop_Inr [OF loop ne]) simp_all
  show "length clat = nCells m" and "length clon = nCells m"
    using inv by simp_all
  show "c < nCells m \<Longrightarrow> length (clat ! c) = maxEdges m \<and> length (clon ! c) = maxEdges m"
    using inv by simp
  show "c < nCells m \<Longrightarrow> p < maxEdges m \<Longrightarrow>
           reference_corner m c p = Inr (clat ! c ! p, clon ! c ! p)"
    using inv by simp
qed


lemma put_var1_Inr:
  "put_var1 n vals v = Inr v' \<Longrightarrow> length vals = n \<and> v' = v\<lparr>var_data := Some vals\<rparr>"
  by (auto simp: put_var1_def split: if_splits)

lemma put_var2_Inr:
  "put_var2 n k vals v = Inr v' \<Longrightarrow> v' = v\<lparr>var_data := Some vals\<rparr>"
  by (auto simp: put_var2_def split: if_splits)

lemma MpasMeshDescriptor_to_scrip_Inr:
  assumes "MpasMeshDescriptor_to_scrip m argv = Inr out"
  obtains r clat clon where "sphere_radius m = Some r"
    and "mesh_corners m = Inr (clat, clon)"
    and "out = (create_scrip (nCells m) (maxEdges m) 1 ''radians'')
           \<lparr>grid_center_lat := \<lparr>var_units = Some ''radians'', var_data = Some (latCell m)\<rparr>,
            grid_center_lon := \<lparr>var_units = Some ''radians'', var_data = Some (lonCell m)\<rparr>,
            grid_corner_lat := \<lparr>var_units = Some ''radians'', var_data = Some clat\<rparr>,
            grid_corner_lon := \<lparr>var_units = Some ''radians'', var_data = Some clon\<rparr>,
            grid_imask := \<lparr>var_units = Some ''unitless'',
                            var_data = Some (replicate (nCells m) 1)\<rparr>,
            grid_dims := \<lparr>var_units = None, var_data = Some [int (nCells m)]\<rparr>,
            grid_area := Some \<lparr>var_units = Some ''radian^2'',
                                 var_data = Some (map (\<lambda>a. a / r ^ 2) (areaCell m))\<rparr>,
            history := Some (mesh_newhist (mesh_history m) argv)\<rparr>"
proof -
  from assms obtain r where r: "sphere_radius m = Some r"
    by (cases "sphere_radius m") (simp_all add: MpasMeshDescriptor_to_scrip_def)
  let ?o = "create_scrip (nCells m) (maxEdges m) 1 ''radians''"
  from assms r obtain area clat' clon' cc klat klon where
      a: "put_var1 (nCells m) (map (\<lambda>a. a / r ^ 2) (areaCell m))
            \<lparr>var_units = Some ''radian^2'', var_data = None\<rparr> = Inr area"
    and b: "put_var1 (nCells m) (latCell m) (grid_center_lat ?o) = Inr clat'"
    and c: "put_var1 (nCells m) (lonCell m) (grid_center_lon ?o) = Inr clon'"
    and d: "mesh_corners m = Inr cc"
    and e: "put_var2 (nCells m) (maxEdges m) (fst cc) (grid_corner_lat ?o) = Inr klat"
    and f: "put_var2 (nCells m) (maxEdges m) (snd cc) (grid_corner_lon ?o) = Inr klon"
    and o: "out = ?o\<lparr>grid_area := Some area,
                           grid_center_lat := clat',
                           grid_center_lon := clon',
                           grid_dims := put_scalar 1 (int (nCells m)) (grid_dims ?o),
                           grid_imask := put_scalar (nCells m) 1 (grid_imask ?o),
                           grid_corner_lat := klat,
                           grid_corner_lon := klon,
                           history := Some (mesh_newhist (mesh_history m) argv)\<rparr>"
    unfolding MpasMeshDescriptor_to_scrip_def Let_def
    by (auto elim!: and_then_InrE simp: case_prod_beta)
  show ?thesis
  proof (rule that [OF r, of "fst cc" "snd cc"])
    show "mesh_corners m = Inr (fst cc, snd cc)" using d by simp
    show "out = ?o
           \<lparr>grid_center_lat := \<lparr>var_units = Some ''radians'', var_data = Some (latCell m)\<rparr>,
            grid_center_lon := \<lparr>var_units = Some ''radians'', var_data = Some (lonCell m)\<rparr>,
            grid_corner_lat := \<lparr>var_units = Some ''radians'', var_data = Some (fst cc)\<rparr>,
            grid_corner_lon := \<lparr>var_units = Some ''radians'', var_data = Some (snd cc)\<rparr>,
            grid_imask := \<lparr>var_units = Some ''unitless'',
                            var_data = Some (replicate (nCells m) 1)\<rparr>,
            grid_dims := \<lparr>var_units = None, var_data = Some [int (nCells m)]\<rparr>,
            grid_area := Some \<lparr>var_units = Some ''radian^2'',
                                 var_data = Some (map (\<lambda>a. a / r ^ 2) (areaCell m))\<rparr>,
            history := Some (mesh_newhist (mesh_history m) argv)\<rparr>"
      using put_var1_Inr [OF a] put_var1_Inr [OF b] put_var1_Inr [OF c]
        put_var2_Inr [OF e] put_var2_Inr [OF f] o
      by (simp add: create_scrip_def put_scalar_def)
  qed
qed


lemmas mesh_eval_defs =
  MpasMeshDescriptor_to_scrip_def mesh_corners_def corner_step_def fancy_index2_def
  fancy_index1_def broadcast_pairs_def assign_column_def numpy_get_def localVertexIndex_def
  put_var1_def put_var2_def put_scalar_def create_scrip_def mesh_newhist_def Let_def

lemma example_mesh_to_scrip:
  "MpasMeshDescriptor_to_scrip example_mesh argv =
     Inr \<lparr>grid_size = 2, grid_corners = 4, grid_rank = 1,
      grid_center_lat = \<lparr>var_units = Some ''radians'', var_data = Some [0.1, 0.2]\<rparr>,
      grid_center_lon = \<lparr>var_units = Some ''radians'', var_data = Some [1.1, 1.2]\<rparr>,
      grid_corner_lat = \<lparr>var_units = Some ''radians'',
                         var_data = Some [[1, 2, 3, 3], [2, 3, 4, 5]]\<rparr>,
      grid_corner_lon = \<lparr>var_units = Some ''radians'',
                         var_data = Some [[11, 12, 13, 13], [12, 13, 14, 15]]\<rparr>,
      grid_imask = \<lparr>var_units = Some ''unitless'', var_data = Some [1, 1]\<rparr>,
      grid_dims = \<lparr>var_units = None, var_data = Some [2]\<rparr>,
      grid_area = Some \<lparr>var_units = Some ''radian^2'', var_data = Some [1, 2]\<rparr>,
      history = Some (StrList argv)\<rparr>"
  by (simp add: example_mesh_def mesh_eval_defs upt_rec numeral_eq_Suc)



lemma reference_corner_Inr:
  assumes "reference_corner m c p = Inr (la, lo)"
  shows "\<exists>v. c < length (rows (verticesOnCell m))
      \<and> numpy_get (rows (verticesOnCell m) ! c) (localVertexIndex (nEdgesOnCell m ! c) p) = Inr v
      \<and> numpy_get (latVertex m) (v - 1) = Inr la
      \<and> numpy_get (lonVertex m) (v - 1) = Inr lo"
proof -
  from assms obtain ids where ids: "numpy_get (rows (verticesOnCell m)) (int c) = Inr ids"
    and r1: "and_then (numpy_get ids (localVertexIndex (nEdgesOnCell m ! c) p)) (\<lambda>v.
     and_then (numpy_get (latVertex m) (v - 1)) (\<lambda>la.
     and_then (numpy_get (lonVertex m) (v - 1)) (\<lambda>lo.
     Inr (la, lo)))) = Inr (la, lo)"
    unfolding reference_corner_def by (rule and_then_InrE)
  from r1 obtain v where v: "numpy_get ids (localVertexIndex (nEdgesOnCell m ! c) p) = Inr v"
    and r2: "and_then (numpy_get (latVertex m) (v - 1)) (\<lambda>la.
     and_then (numpy_get (lonVertex m) (v - 1)) (\<lambda>lo.
     Inr (la, lo))) = Inr (la, lo)"
    by (rule and_then_InrE)
  from r2 obtain la' where la: "numpy_get (latVertex m) (v - 1) = Inr la'"
    and r3: "and_then (numpy_get (lonVertex m) (v - 1)) (\<lambda>lo. Inr (la', lo)) = Inr (la, lo)"
    by (rule and_then_InrE)
  from r3 obtain lo' where lo: "numpy_get (lonVertex m) (v - 1) = Inr lo'"
    and e: "Inr (la', lo') = (Inr (la, lo) :: error + real \<times> real)"
    by (rule and_then_InrE)
  from ids have "c < length (rows (verticesOnCell m))" "ids = rows (verticesOnCell m) ! c"
    by (simp_all add: numpy_get_eq_Inr)
  with v la lo e show ?thesis by auto
qed

lemma reference_corner_repeat:
  "1 \<le> nEdgesOnCell m ! c \<Longrightarrow> nEdgesOnCell m ! c - 1 \<le> int q \<Longrightarrow>
     reference_corner m c q = reference_corner m c (nat (nEdgesOnCell m ! c - 1))"
  by (simp add: reference_corner_def localVertexIndex_def min_def)

text \<open>
  Claim C1. In a successful export of a mesh whose \<^verbatim>\<open>nEdgesOnCell\<close> has one entry per cell,
  the corner of cell \<open>c\<close> at output position \<open>p < maxVertices\<close> is the latitude and longitude
  of the vertex \<open>v - 1\<close>, where \<open>v\<close> is the vertex id at local index
  \<open>min (nEdgesOnCell[c] - 1) p\<close> of the vertex list of the cell. All reads are numpy reads;
  for a cell with at least one edge and a positive id they are the plain reads of the
  claim. For a cell with \<open>k\<close> edges, \<open>1 \<le> k\<close>, every position from \<open>k\<close> on repeats position
  \<open>k - 1\<close>, and for \<open>k = maxVertices\<close> the effective local index of position \<open>q\<close> is \<open>q\<close>
  itself, so that no repeat is forced.
\<close>

theorem mesh_corner_reconstruction:
  assumes ok: "MpasMeshDescriptor_to_scrip m argv = Inr out"
    and ne: "length (nEdgesOnCell m) = nCells m"
    and c: "c < nCells m" and p: "p < maxEdges m"
  shows "\<exists>clat clon v.
      var_data (grid_corner_lat out) = Some clat \<and> var_data (grid_corner_lon out) = Some clon
    \<and> c < length (rows (verticesOnCell m))
    \<and> numpy_get (rows (verticesOnCell m) ! c) (min (nEdgesOnCell m ! c - 1) (int p)) = Inr v
    \<and> numpy_get (latVertex m) (v - 1) = Inr (clat ! c ! p)
    \<and> numpy_get (lonVertex m) (v - 1) = Inr (clon ! c ! p)
    \<and> (1 \<le> nEdgesOnCell m ! c \<longrightarrow>
         v = rows (verticesOnCell m) ! c ! nat (min (nEdgesOnCell m ! c - 1) (int p)))
    \<and> (1 \<le> v \<longrightarrow>
         clat ! c ! p = latVertex m ! nat (v - 1) \<and> clon ! c ! p = lonVertex m ! nat (v - 1))
    \<and> (\<forall>q. 1 \<le> nEdgesOnCell m ! c \<and> nEdgesOnCell m ! c \<le> int q \<and> q < maxEdges m \<longrightarrow>
           clat ! c ! q = clat ! c ! nat (nEdgesOnCell m ! c - 1)
         \<and> clon ! c ! q = clon ! c ! nat (nEdgesOnCell m ! c - 1))
    \<and> (nEdgesOnCell m ! c = int (maxEdges m) \<longrightarrow>
         (\<forall>q < maxEdges m. localVertexIndex (nEdgesOnCell m ! c) q = int q))"
proof -
  from ok obtain r clat clon where mc: "mesh_corners m = Inr (clat, clon)"
    and out: "var_data (grid_corner_lat out) = Some clat"
      "var_data (grid_corner_lon out) = Some clon"
    by (rule MpasMeshDescriptor_to_scrip_Inr) simp
  note ref = mesh_corners_Inr(4) [OF mc ne c]
  from reference_corner_Inr [OF ref [OF p]] obtain v
    where cl: "c < length (rows (verticesOnCell m))"
      and v: "numpy_get (rows (verticesOnCell m) ! c) (min (nEdgesOnCell m ! c - 1) (int p)) = Inr v"
      and la: "numpy_get (latVertex m) (v - 1) = Inr (clat ! c ! p)"
      and lo: "numpy_get (lonVertex m) (v - 1) = Inr (clon ! c ! p)"
    unfolding localVertexIndex_def by blast
  have direct: "v = rows (verticesOnCell m) ! c ! nat (min (nEdgesOnCell m ! c - 1) (int p))"
    if "1 \<le> nEdgesOnCell m ! c"
    using v that by (simp add: numpy_get_eq_Inr)
  have vertex: "clat ! c ! p = latVertex m ! nat (v - 1) \<and> clon ! c ! p = lonVertex m ! nat (v - 1)"
    if "1 \<le> v"
    using la lo that by (simp add: numpy_get_eq_Inr)
  have rep: "clat ! c ! q = clat ! c ! nat (nEdgesOnCell m ! c - 1)
         \<and> clon ! c ! q = clon ! c ! nat (nEdgesOnCell m ! c - 1)"
    if q: "1 \<le> nEdgesOnCell m ! c \<and> nEdgesOnCell m ! c \<le> int q \<and> q < maxEdges m" for q
  proof -
    have k: "nat (nEdgesOnCell m ! c - 1) < maxEdges m" using q by linarith
    have "reference_corner m c q = reference_corner m c (nat (nEdgesOnCell m ! c - 1))"
      using q by (intro reference_corner_repeat) simp_all
    with ref [of q] ref [OF k] q show ?thesis by simp
  qed
  have norep: "\<forall>q < maxEdges m. localVertexIndex (nEdgesOnCell m ! c) q = int q"
    if "nEdgesOnCell m ! c = int (maxEdges m)"
    using that by (simp add: localVertexIndex_def)
  show ?thesis
    using out cl v la lo direct vertex rep norep by blast
qed

theorem mesh_corner_reconstruction_witness:
  "MpasMeshDescriptor_to_scrip example_mesh [''prog''] =
     Inr \<lparr>grid_size = 2, grid_corners = 4, grid_rank = 1,
      grid_center_lat = \<lparr>var_units = Some ''radians'', var_data = Some [0.1, 0.2]\<rparr>,
      grid_center_lon = \<lparr>var_units = Some ''radians'', var_data = Some [1.1, 1.2]\<rparr>,
      grid_corner_lat = \<lparr>var_units = Some ''radians'',
                         var_data = Some [[1, 2, 3, 3], [2, 3, 4, 5]]\<rparr>,
      grid_corner_lon = \<lparr>var_units = Some ''radians'',
                         var_data = Some [[11, 12, 13, 13], [12, 13, 14, 15]]\<rparr>,
      grid_imask = \<lparr>var_units = Some ''unitless'', var_data = Some [1, 1]\<rparr>,
      grid_dims = \<lparr>var_units = None, var_data = Some [2]\<rparr>,
      grid_area = Some \<lparr>var_units = Some ''radian^2'', var_data = Some [1, 2]\<rparr>,
      history = Some (StrList [''prog''])\<rparr>
   \<and> length (nEdgesOnCell example_mesh) = nCells example_mesh
   \<and> (0::nat) < nCells example_mesh \<and> (3::nat) < maxEdges example_mesh
   \<and> numpy_get (rows (verticesOnCell example_mesh) ! 0)
         (min (nEdgesOnCell example_mesh ! 0 - 1) (int 3)) = Inr 3
   \<and> numpy_get (latVertex example_mesh) (3 - 1) = Inr ([[1, 2, 3, 3], [2, 3, 4, 5]] ! 0 ! 3)
   \<and> numpy_get (lonVertex example_mesh) (3 - 1) = Inr ([[11, 12, 13, 13], [12, 13, 14, 15]] ! 0 ! 3)"
proof -
  have h1: "MpasMeshDescriptor_to_scrip example_mesh [''prog''] =
     Inr \<lparr>grid_size = 2, grid_corners = 4, grid_rank = 1,
      grid_center_lat = \<lparr>var_units = Some ''radians'', var_data = Some [0.1, 0.2]\<rparr>,
      grid_center_lon = \<lparr>var_units = Some ''radians'', var_data = Some [1.1, 1.2]\<rparr>,
      grid_corner_lat = \<lparr>var_units = Some ''radians'',
                         var_data = Some [[1, 2, 3, 3], [2, 3, 4, 5]]\<rparr>,
      grid_corner_lon = \<lparr>var_units = Some ''radians'',
                         var_data = Some [[11, 12, 13, 13], [12, 13, 14, 15]]\<rparr>,
      grid_imask = \<lparr>var_units = Some ''unitless'', var_data = Some [1, 1]\<rparr>,
      grid_dims = \<lparr>var_units = None, var_data = Some [2]\<rparr>,
      grid_area = Some \<lparr>var_units = Some ''radian^2'', var_data = Some [1, 2]\<rparr>,
      history = Some (StrList [''prog''])\<rparr>"
    by (rule example_mesh_to_scrip)
  have h2: "length (nEdgesOnCell example_mesh) = nCells example_mesh"
    by (simp add: example_mesh_def)
  have h3: "(0::nat) < nCells example_mesh" by (simp add: example_mesh_def)
  have h4: "(3::nat) < maxEdges example_mesh" by (simp add: example_mesh_def)
  from mesh_corner_reconstruction [OF h1 h2 h3 h4]
  obtain clat clon v where
      "Some [[1, 2, 3, 3], [2, 3, 4, 5]] = Some clat"
      "Some [[11, 12, 13, 13], [12, 13, 14, 15]] = Some clon"
    and v: "numpy_get (rows (verticesOnCell example_mesh) ! 0)
             (min (nEdgesOnCell example_mesh ! 0 - 1) (int 3)) = Inr v"
    and la: "numpy_get (latVertex example_mesh) (v - 1) = Inr (clat ! 0 ! 3)"
    and lo: "numpy_get (lonVertex example_mesh) (v - 1) = Inr (clon ! 0 ! 3)"
    by auto
  moreover from v have "v = 3"
    by (simp add: example_mesh_def numpy_get_def)
  ultimately show ?thesis using h1 h2 h3 h4 by auto
qed

subsection \<open>Lat-lon grids\<close>

text \<open>
  Claim C4. Reading a lat-lon grid with centre latitudes \<open>[0, 10, 20]\<close> and centre longitudes
  \<open>[0, 10]\<close> and exporting it gives \<open>grid_size = 6\<close>, \<open>grid_dims = [2, 3]\<close> (\<open>nLon\<close> first),
  \<open>grid_corners = 4\<close>, \<open>grid_rank = 2\<close> and six polygons: cell \<open>(r, c)\<close> has the corner
  latitudes \<open>latCorner[r], latCorner[r], latCorner[r+1], latCorner[r+1]\<close> and the corner
  longitudes \<open>lonCorner[c], lonCorner[c+1], lonCorner[c+1], lonCorner[c]\<close>, for
  \<open>latCorner = [-5, 5, 15, 25]\<close> and \<open>lonCorner = [-5, 5, 15]\<close>.
\<close>

theorem latlon_end_to_end:
  "and_then
     (LatLonGridDescriptor_read
        \<lparr>ds_lat = [0, 10, 20], ds_lon = [0, 10], ds_lat_units = Some ''degrees_north'',
         ds_lon_units = Some ''degrees_east'', ds_history = None\<rparr> argv)
     LatLonGridDescriptor_to_scrip
   = Inr \<lparr>grid_size = 6, grid_corners = 4, grid_rank = 2,
      grid_center_lat = \<lparr>var_units = Some ''degrees'',
                         var_data = Some [0, 0, 10, 10, 20, 20]\<rparr>,
      grid_center_lon = \<lparr>var_units = Some ''degrees'',
                         var_data = Some [0, 10, 0, 10, 0, 10]\<rparr>,
      grid_corner_lat = \<lparr>var_units = Some ''degrees'', var_data = Some
         [[- 5, - 5, 5, 5], [- 5, - 5, 5, 5], [5, 5, 15, 15], [5, 5, 15, 15],
          [15, 15, 25, 25], [15, 15, 25, 25]]\<rparr>,
      grid_corner_lon = \<lparr>var_units = Some ''degrees'', var_data = Some
         [[- 5, 5, 5, - 5], [5, 15, 15, 5], [- 5, 5, 5, - 5], [5, 15, 15, 5],
          [- 5, 5, 5, - 5], [5, 15, 15, 5]]\<rparr>,
      grid_imask = \<lparr>var_units = Some ''unitless'', var_data = Some [1, 1, 1, 1, 1, 1]\<rparr>,
      grid_dims = \<lparr>var_units = None, var_data = Some [2, 3]\<rparr>,
      grid_area = None,
      history = Some (StrList argv)\<rparr>"
proof -
  have rd: "LatLonGridDescriptor_read
        \<lparr>ds_lat = [0, 10, 20], ds_lon = [0, 10], ds_lat_units = Some ''degrees_north'',
         ds_lon_units = Some ''degrees_east'', ds_history = None\<rparr> argv
    = Inr \<lparr>self_lat = [0, 10, 20], self_lon = [0, 10], latCorner = [- 5, 5, 15, 25],
           lonCorner = [- 5, 5, 15], self_units = ''degrees'', self_history = StrList argv\<rparr>"
    by (simp add: LatLonGridDescriptor_read_def interp_extrap_corner_closed
        centers_of_corners_def read_history_def sublist_code prefix_code)
  show ?thesis
    unfolding rd and_then_Inr
    by (simp add: LatLonGridDescriptor_to_scrip_def rect_to_scrip_def create_scrip_def
        meshgrid_def flat_def put_var1_def put_var2_def put_scalar_def unwrap_corners_def
        assign_column_def numeral_eq_Suc)
qed

subsection \<open>The history attribute\<close>

text \<open>
  Claim C5 (not met by the code). When the source carries provenance text, the history is
  that text, a newline and the space-joined argument vector. When it carries none, the
  branch \<^verbatim>\<open>newhist = sys.argv[:]\<close> (and \<^verbatim>\<open>self.history = sys.argv[:]\<close>) stores the argument
  vector itself, a list of strings, where the claim has the space-joined command line.
  The theorem evaluates both branches for the arguments \<^verbatim>\<open>prog out.nc\<close>.
\<close>

theorem history_without_provenance_is_argv_list:
  "map_sum id history
     (MpasMeshDescriptor_to_scrip example_mesh [''prog'', ''out.nc''])
     = Inr (Some (StrList [''prog'', ''out.nc'']))
   \<and> StrList [''prog'', ''out.nc''] \<noteq> Str (str_join '' '' [''prog'', ''out.nc''])
   \<and> map_sum id history
     (MpasMeshDescriptor_to_scrip (example_mesh\<lparr>mesh_history := Some ''made by mesh tool''\<rparr>)
        [''prog'', ''out.nc''])
     = Inr (Some (Str (''made by mesh tool'' @ [CHR 0x0A] @ ''prog out.nc'')))
   \<and> map_sum id self_history
     (LatLonGridDescriptor_read
        \<lparr>ds_lat = [0, 10, 20], ds_lon = [0, 10], ds_lat_units = Some ''degrees_north'',
         ds_lon_units = Some ''degrees_east'', ds_history = None\<rparr> [''prog'', ''out.nc''])
     = Inr (StrList [''prog'', ''out.nc''])"
proof (intro conjI)
  show "map_sum id history
     (MpasMeshDescriptor_to_scrip example_mesh [''prog'', ''out.nc''])
     = Inr (Some (StrList [''prog'', ''out.nc'']))"
    by (simp add: example_mesh_to_scrip)
  show "StrList [''prog'', ''out.nc''] \<noteq> Str (str_join '' '' [''prog'', ''out.nc''])"
    by simp
  show "map_sum id history
     (MpasMeshDescriptor_to_scrip (example_mesh\<lparr>mesh_history := Some ''made by mesh tool''\<rparr>)
        [''prog'', ''out.nc''])
     = Inr (Some (Str (''made by mesh tool'' @ [CHR 0x0A] @ ''prog out.nc'')))"
    by (simp add: example_mesh_def mesh_eval_defs upt_rec numeral_eq_Suc)
  show "map_sum id self_history
     (LatLonGridDescriptor_read
        \<lparr>ds_lat = [0, 10, 20], ds_lon = [0, 10], ds_lat_units = Some ''degrees_north'',
         ds_lon_units = Some ''degrees_east'', ds_history = None\<rparr> [''prog'', ''out.nc''])
     = Inr (StrList [''prog'', ''out.nc''])"
    by (simp add: LatLonGridDescriptor_read_def interp_extrap_corner_closed
        centers_of_corners_def read_history_def sublist_code prefix_code)
qed

subsection \<open>Cell areas\<close>

text \<open>
  Claim C8. In a successful export of a mesh with sphere radius \<open>r\<close>, the exported area of
  every cell is the source area divided by \<open>r\<^sup>2\<close>; a source area of 100 with radius 10 is
  exported as 1 (first cell of the example mesh). The radius is taken to be nonzero: a
  division by a zero radius gives an infinity or a NaN in numpy, which a real number
  does not model.
\<close>

theorem mesh_area_unit_sphere:
  "(MpasMeshDescriptor_to_scrip m argv = Inr out \<and> sphere_radius m = Some r \<and> r \<noteq> 0 \<longrightarrow>
      grid_area out = Some \<lparr>var_units = Some ''radian^2'',
                              var_data = Some (map (\<lambda>a. a / r ^ 2) (areaCell m))\<rparr>
      \<and> length (areaCell m) = grid_size out)
   \<and> areaCell example_mesh = [100, 200] \<and> sphere_radius example_mesh = Some 10
   \<and> map_sum id grid_area (MpasMeshDescriptor_to_scrip example_mesh argv)
       = Inr (Some \<lparr>var_units = Some ''radian^2'', var_data = Some [1, 2]\<rparr>)"
proof (intro conjI impI)
  assume a: "MpasMeshDescriptor_to_scrip m argv = Inr out \<and> sphere_radius m = Some r \<and> r \<noteq> 0"
  then have ok: "MpasMeshDescriptor_to_scrip m argv = Inr out" and r: "sphere_radius m = Some r"
    by simp_all
  from ok obtain r' clat clon where "sphere_radius m = Some r'"
    and "out = (create_scrip (nCells m) (maxEdges m) 1 ''radians'')
           \<lparr>grid_center_lat := \<lparr>var_units = Some ''radians'', var_data = Some (latCell m)\<rparr>,
            grid_center_lon := \<lparr>var_units = Some ''radians'', var_data = Some (lonCell m)\<rparr>,
            grid_corner_lat := \<lparr>var_units = Some ''radians'', var_data = Some clat\<rparr>,
            grid_corner_lon := \<lparr>var_units = Some ''radians'', var_data = Some clon\<rparr>,
            grid_imask := \<lparr>var_units = Some ''unitless'',
                            var_data = Some (replicate (nCells m) 1)\<rparr>,
            grid_dims := \<lparr>var_units = None, var_data = Some [int (nCells m)]\<rparr>,
            grid_area := Some \<lparr>var_units = Some ''radian^2'',
                                 var_data = Some (map (\<lambda>a. a / r' ^ 2) (areaCell m))\<rparr>,
            history := Some (mesh_newhist (mesh_history m) argv)\<rparr>"
    by (rule MpasMeshDescriptor_to_scrip_Inr)
  with r show "grid_area out = Some \<lparr>var_units = Some ''radian^2'',
                              var_data = Some (map (\<lambda>a. a / r ^ 2) (areaCell m))\<rparr>"
    by simp
  from ok r have "put_var1 (nCells m) (map (\<lambda>a. a / r ^ 2) (areaCell m))
            \<lparr>var_units = Some ''radian^2'', var_data = None\<rparr> \<noteq> Inl IndexError"
    by (auto simp: MpasMeshDescriptor_to_scrip_def Let_def)
  then have "length (areaCell m) = nCells m"
    by (simp add: put_var1_def split: if_splits)
  moreover have "grid_size out = nCells m"
    using \<open>out = _\<close> by (simp add: create_scrip_def)
  ultimately show "length (areaCell m) = grid_size out" by simp
next
  show "areaCell example_mesh = [100, 200]" by (simp add: example_mesh_def)
  show "sphere_radius example_mesh = Some 10" by (simp add: example_mesh_def)
  show "map_sum id grid_area (MpasMeshDescriptor_to_scrip example_mesh argv)
       = Inr (Some \<lparr>var_units = Some ''radian^2'', var_data = Some [1, 2]\<rparr>)"
    by (simp add: example_mesh_to_scrip)
qed

theorem mesh_area_unit_sphere_witness:
  "MpasMeshDescriptor_to_scrip (example_mesh\<lparr>areaCell := [50, 8], sphere_radius := Some 2\<rparr>)
      [''prog''] =
     Inr \<lparr>grid_size = 2, grid_corners = 4, grid_rank = 1,
      grid_center_lat = \<lparr>var_units = Some ''radians'', var_data = Some [0.1, 0.2]\<rparr>,
      grid_center_lon = \<lparr>var_units = Some ''radians'', var_data = Some [1.1, 1.2]\<rparr>,
      grid_corner_lat = \<lparr>var_units = Some ''radians'',
                         var_data = Some [[1, 2, 3, 3], [2, 3, 4, 5]]\<rparr>,
      grid_corner_lon = \<lparr>var_units = Some ''radians'',
                         var_data = Some [[11, 12, 13, 13], [12, 13, 14, 15]]\<rparr>,
      grid_imask = \<lparr>var_units = Some ''unitless'', var_data = Some [1, 1]\<rparr>,
      grid_dims = \<lparr>var_units = None, var_data = Some [2]\<rparr>,
      grid_area = Some \<lparr>var_units = Some ''radian^2'', var_data = Some [12.5, 2]\<rparr>,
      history = Some (StrList [''prog''])\<rparr>
   \<and> sphere_radius (example_mesh\<lparr>areaCell := [50, 8], sphere_radius := Some 2\<rparr>) = Some 2
   \<and> (2::real) \<noteq> 0
   \<and> map (\<lambda>a. a / 2 ^ 2) (areaCell (example_mesh\<lparr>areaCell := [50, 8], sphere_radius := Some 2\<rparr>))
       = [12.5, 2 :: real]"
proof -
  let ?m = "example_mesh\<lparr>areaCell := [50, 8], sphere_radius := Some 2\<rparr>"
  let ?out = "\<lparr>grid_size = 2, grid_corners = 4, grid_rank = 1,
      grid_center_lat = \<lparr>var_units = Some ''radians'', var_data = Some [0.1, 0.2]\<rparr>,
      grid_center_lon = \<lparr>var_units = Some ''radians'', var_data = Some [1.1, 1.2]\<rparr>,
      grid_corner_lat = \<lparr>var_units = Some ''radians'',
                         var_data = Some [[1, 2, 3, 3], [2, 3, 4, 5]]\<rparr>,
      grid_corner_lon = \<lparr>var_units = Some ''radians'',
                         var_data = Some [[11, 12, 13, 13], [12, 13, 14, 15]]\<rparr>,
      grid_imask = \<lparr>var_units = Some ''unitless'', var_data = Some [1, 1]\<rparr>,
      grid_dims = \<lparr>var_units = None, var_data = Some [2]\<rparr>,
      grid_area = Some \<lparr>var_units = Some ''radian^2'', var_data = Some [12.5, 2 :: real]\<rparr>,
      history = Some (StrList [''prog''])\<rparr>"
  have h1: "MpasMeshDescriptor_to_scrip ?m [''prog''] = Inr ?out"
    by (simp add: example_mesh_def mesh_eval_defs upt_rec numeral_eq_Suc)
  have h2: "sphere_radius ?m = Some 2" by simp
  have h3: "(2::real) \<noteq> 0" by simp
  from mesh_area_unit_sphere [where m = ?m and argv = "[''prog'']" and out = ?out and r = 2] h1 h2 h3
  have "grid_area ?out = Some \<lparr>var_units = Some ''radian^2'',
                              var_data = Some (map (\<lambda>a. a / 2 ^ 2) (areaCell ?m))\<rparr>"
    by blast
  then have "map (\<lambda>a. a / 2 ^ 2) (areaCell ?m) = [12.5, 2 :: real]"
    by simp
  with h1 h2 h3 show ?thesis by blast
qed

subsection \<open>Units of a lat-lon grid\<close>

text \<open>
  Claim C10. Reading a lat-lon grid whose latitude variable has the units \<open>u\<close> (and whose
  axes have at least two points, so that the corners can be located) succeeds; the stored
  units are \<open>degrees\<close> exactly when \<open>u\<close> contains \<open>degree\<close> and \<open>radians\<close> in every other case, and
  the descriptor is the same whatever the units of the longitude variable are.
\<close>

theorem latlon_units_from_latitude_only:
  assumes "ds_lat_units ds = Some u"
    and "2 \<le> length (ds_lat ds)" and "2 \<le> length (ds_lon ds)"
  shows "\<exists>d. LatLonGridDescriptor_read ds argv = Inr d
          \<and> (self_units d = ''degrees'' \<longleftrightarrow> sublist ''degree'' u)
          \<and> (\<not> sublist ''degree'' u \<longrightarrow> self_units d = ''radians'')
          \<and> (\<forall>w. LatLonGridDescriptor_read (ds\<lparr>ds_lon_units := w\<rparr>) argv = Inr d)"
  using assms
  by (simp add: LatLonGridDescriptor_read_def interp_extrap_corner_closed)

theorem latlon_units_from_latitude_only_witness:
  "ds_lat_units \<lparr>ds_lat = [0, 1], ds_lon = [0, 1, 2], ds_lat_units = Some ''meters'',
                  ds_lon_units = Some ''degrees_east'', ds_history = None\<rparr> = Some ''meters''
   \<and> 2 \<le> length (ds_lat \<lparr>ds_lat = [0, 1], ds_lon = [0, 1, 2], ds_lat_units = Some ''meters'',
                  ds_lon_units = Some ''degrees_east'', ds_history = None\<rparr>)
   \<and> 2 \<le> length (ds_lon \<lparr>ds_lat = [0, 1], ds_lon = [0, 1, 2], ds_lat_units = Some ''meters'',
                  ds_lon_units = Some ''degrees_east'', ds_history = None\<rparr>)
   \<and> \<not> sublist ''degree'' ''meters''
   \<and> map_sum id self_units
        (LatLonGridDescriptor_read
           \<lparr>ds_lat = [0, 1], ds_lon = [0, 1, 2], ds_lat_units = Some ''meters'',
            ds_lon_units = Some ''degrees_east'', ds_history = None\<rparr> [''prog''])
       = Inr ''radians''"
proof -
  let ?ds = "\<lparr>ds_lat = [0, 1], ds_lon = [0, 1, 2], ds_lat_units = Some ''meters'',
                  ds_lon_units = Some ''degrees_east'', ds_history = None\<rparr>"
  have h1: "ds_lat_units ?ds = Some ''meters''" by simp
  have h2: "2 \<le> length (ds_lat ?ds)" by simp
  have h3: "2 \<le> length (ds_lon ?ds)" by simp
  have n: "\<not> sublist ''degree'' ''meters''"
    by (simp add: sublist_code prefix_code)
  from latlon_units_from_latitude_only [OF h1 h2 h3, of "[''prog'']"] n
  obtain d where "LatLonGridDescriptor_read ?ds [''prog''] = Inr d" "self_units d = ''radians''"
    by blast
  then have "map_sum id self_units (LatLonGridDescriptor_read ?ds [''prog'']) = Inr ''radians''"
    by simp
  with h1 h2 h3 n show ?thesis by blast
qed

subsection \<open>Mask and units\<close>

lemma rect_to_scrip_Inr:
  assumes "rect_to_scrip outFile nx ny Lat Lon LatC LonC hist = Inr out"
  shows "grid_size out = grid_size outFile"
    and "var_data (grid_imask out) = Some (replicate (grid_size outFile) 1)"
    and "var_units (grid_center_lat out) = var_units (grid_center_lat outFile)"
    and "var_units (grid_center_lon out) = var_units (grid_center_lon outFile)"
    and "var_units (grid_corner_lat out) = var_units (grid_corner_lat outFile)"
    and "var_units (grid_corner_lon out) = var_units (grid_corner_lon outFile)"
proof -
  from assms obtain clat clon dims v1 klat v2 klon where
      a: "put_var1 (grid_size outFile) (flat Lat) (grid_center_lat outFile) = Inr clat"
    and b: "put_var1 (grid_size outFile) (flat Lon) (grid_center_lon outFile) = Inr clon"
    and c: "put_var2 (grid_size outFile) (grid_corners outFile) v1
                  (grid_corner_lat outFile) = Inr klat"
    and d: "put_var2 (grid_size outFile) (grid_corners outFile) v2
                  (grid_corner_lon outFile) = Inr klon"
    and o: "out = outFile\<lparr>grid_center_lat := clat,
                      grid_center_lon := clon,
                      grid_dims := dims,
                      grid_imask := put_scalar (grid_size outFile) 1 (grid_imask outFile),
                      grid_corner_lat := klat,
                      grid_corner_lon := klon,
                      history := Some hist\<rparr>"
    unfolding rect_to_scrip_def Let_def
    by (elim and_then_InrE) blast
  show "grid_size out = grid_size outFile" using o by simp
  show "var_data (grid_imask out) = Some (replicate (grid_size outFile) 1)"
    using o by (simp add: put_scalar_def)
  show "var_units (grid_center_lat out) = var_units (grid_center_lat outFile)"
    using o put_var1_Inr [OF a] by simp
  show "var_units (grid_center_lon out) = var_units (grid_center_lon outFile)"
    using o put_var1_Inr [OF b] by simp
  show "var_units (grid_corner_lat out) = var_units (grid_corner_lat outFile)"
    using o put_var2_Inr [OF c] by simp
  show "var_units (grid_corner_lon out) = var_units (grid_corner_lon outFile)"
    using o put_var2_Inr [OF d] by simp
qed



lemmas rect_eval_defs =
  rect_to_scrip_def create_scrip_def meshgrid_def flat_def put_var1_def put_var2_def
  put_scalar_def unwrap_corners_def assign_column_def

text \<open>
  Claim C9. In every successful export, by any of the three descriptors, every entry of
  \<^verbatim>\<open>grid_imask\<close> is 1 and the four variables \<^verbatim>\<open>grid_center_lat\<close>, \<^verbatim>\<open>grid_center_lon\<close>,
  \<^verbatim>\<open>grid_corner_lat\<close> and \<^verbatim>\<open>grid_corner_lon\<close> carry the same units: \<open>radians\<close> for a mesh, the
  units of the descriptor for a lat-lon grid, \<open>degrees\<close> for a projected grid.
\<close>

theorem exported_mask_and_units:
  "(MpasMeshDescriptor_to_scrip m argv = Inr out1 \<longrightarrow> mask_and_units out1 ''radians'')
   \<and> (LatLonGridDescriptor_to_scrip d = Inr out2 \<longrightarrow> mask_and_units out2 (self_units d))
   \<and> (ProjectionGridDescriptor_to_scrip g = Inr out3 \<longrightarrow> mask_and_units out3 ''degrees'')"
proof (intro conjI impI)
  assume "MpasMeshDescriptor_to_scrip m argv = Inr out1"
  then obtain r clat clon where
    "out1 = (create_scrip (nCells m) (maxEdges m) 1 ''radians'')
           \<lparr>grid_center_lat := \<lparr>var_units = Some ''radians'', var_data = Some (latCell m)\<rparr>,
            grid_center_lon := \<lparr>var_units = Some ''radians'', var_data = Some (lonCell m)\<rparr>,
            grid_corner_lat := \<lparr>var_units = Some ''radians'', var_data = Some clat\<rparr>,
            grid_corner_lon := \<lparr>var_units = Some ''radians'', var_data = Some clon\<rparr>,
            grid_imask := \<lparr>var_units = Some ''unitless'',
                            var_data = Some (replicate (nCells m) 1)\<rparr>,
            grid_dims := \<lparr>var_units = None, var_data = Some [int (nCells m)]\<rparr>,
            grid_area := Some \<lparr>var_units = Some ''radian^2'',
                                 var_data = Some (map (\<lambda>a. a / r ^ 2) (areaCell m))\<rparr>,
            history := Some (mesh_newhist (mesh_history m) argv)\<rparr>"
    by (rule MpasMeshDescriptor_to_scrip_Inr)
  then show "mask_and_units out1 ''radians''"
    by (simp add: mask_and_units_def create_scrip_def)
next
  assume "LatLonGridDescriptor_to_scrip d = Inr out2"
  then have "\<exists>Lat Lon LatC LonC.
      rect_to_scrip (create_scrip (length (self_lat d) * length (self_lon d)) 4 2 (self_units d))
        (length (self_lon d)) (length (self_lat d)) Lat Lon LatC LonC (self_history d) = Inr out2"
    unfolding LatLonGridDescriptor_to_scrip_def Let_def meshgrid_def case_prod_conv by blast
  then obtain Lat Lon LatC LonC where
    "rect_to_scrip (create_scrip (length (self_lat d) * length (self_lon d)) 4 2 (self_units d))
        (length (self_lon d)) (length (self_lat d)) Lat Lon LatC LonC (self_history d) = Inr out2"
    by blast
  from rect_to_scrip_Inr [OF this] show "mask_and_units out2 (self_units d)"
    by (simp add: mask_and_units_def create_scrip_def)
next
  assume ok: "ProjectionGridDescriptor_to_scrip g = Inr out3"
  let ?o = "create_scrip (length (self_x g) * length (self_y g)) 4 2 ''degrees''"
  from ok obtain c1 where
    r1: "(case c1 of (Lat, Lon) \<Rightarrow>
           and_then (project_to_lat_lon (self_projection g)
                       (fst (meshgrid (xCorner g) (yCorner g)))
                       (snd (meshgrid (xCorner g) (yCorner g)))) (\<lambda>(LatC, LonC).
             rect_to_scrip ?o (length (self_x g)) (length (self_y g)) Lat Lon LatC LonC
               (proj_history g))) = Inr out3"
    unfolding ProjectionGridDescriptor_to_scrip_def Let_def case_prod_beta
    by (elim and_then_InrE) (simp add: case_prod_beta)
  then obtain c2 where
    "rect_to_scrip ?o (length (self_x g)) (length (self_y g)) (fst c1) (snd c1) (fst c2) (snd c2)
               (proj_history g) = Inr out3"
    unfolding case_prod_beta by (elim and_then_InrE)
  from rect_to_scrip_Inr [OF this] show "mask_and_units out3 ''degrees''"
    by (simp add: mask_and_units_def create_scrip_def)
qed

lemma example_projected_to_scrip:
  "ProjectionGridDescriptor_to_scrip example_projected =
     Inr \<lparr>grid_size = 6, grid_corners = 4, grid_rank = 2,
        grid_center_lat = \<lparr>var_units = Some ''degrees'', var_data = Some [0, 0, 1, 1, 2, 2]\<rparr>,
        grid_center_lon = \<lparr>var_units = Some ''degrees'', var_data = Some [0, 1, 0, 1, 0, 1]\<rparr>,
        grid_corner_lat = \<lparr>var_units = Some ''degrees'', var_data = Some
           [[- 0.5, - 0.5, 0.5, 0.5], [- 0.5, - 0.5, 0.5, 0.5], [0.5, 0.5, 1.5, 1.5],
            [0.5, 0.5, 1.5, 1.5], [1.5, 1.5, 2.5, 2.5], [1.5, 1.5, 2.5, 2.5]]\<rparr>,
        grid_corner_lon = \<lparr>var_units = Some ''degrees'', var_data = Some
           [[- 0.5, 0.5, 0.5, - 0.5], [0.5, 1.5, 1.5, 0.5], [- 0.5, 0.5, 0.5, - 0.5],
            [0.5, 1.5, 1.5, 0.5], [- 0.5, 0.5, 0.5, - 0.5], [0.5, 1.5, 1.5, 0.5]]\<rparr>,
        grid_imask = \<lparr>var_units = Some ''unitless'', var_data = Some [1, 1, 1, 1, 1, 1]\<rparr>,
        grid_dims = \<lparr>var_units = None, var_data = Some [2, 3]\<rparr>,
        grid_area = None, history = Some (StrList [''prog''])\<rparr>"
  by (simp add: example_projected_def example_projection_def
      ProjectionGridDescriptor_to_scrip_def project_to_lat_lon_def pyproj_transform_def
      transform_point_def rect_eval_defs numeral_eq_Suc)

lemma example_latlon_to_scrip:
  "LatLonGridDescriptor_to_scrip example_latlon =
     Inr \<lparr>grid_size = 6, grid_corners = 4, grid_rank = 2,
      grid_center_lat = \<lparr>var_units = Some ''degrees'',
                         var_data = Some [0, 0, 10, 10, 20, 20]\<rparr>,
      grid_center_lon = \<lparr>var_units = Some ''degrees'',
                         var_data = Some [0, 10, 0, 10, 0, 10]\<rparr>,
      grid_corner_lat = \<lparr>var_units = Some ''degrees'', var_data = Some
         [[- 5, - 5, 5, 5], [- 5, - 5, 5, 5], [5, 5, 15, 15], [5, 5, 15, 15],
          [15, 15, 25, 25], [15, 15, 25, 25]]\<rparr>,
      grid_corner_lon = \<lparr>var_units = Some ''degrees'', var_data = Some
         [[- 5, 5, 5, - 5], [5, 15, 15, 5], [- 5, 5, 5, - 5], [5, 15, 15, 5],
          [- 5, 5, 5, - 5], [5, 15, 15, 5]]\<rparr>,
      grid_imask = \<lparr>var_units = Some ''unitless'', var_data = Some [1, 1, 1, 1, 1, 1]\<rparr>,
      grid_dims = \<lparr>var_units = None, var_data = Some [2, 3]\<rparr>,
      grid_area = None,
      history = Some (StrList [''prog''])\<rparr>"
  by (simp add: example_latlon_def LatLonGridDescriptor_create_def centers_of_corners_def
      LatLonGridDescriptor_to_scrip_def rect_eval_defs numeral_eq_Suc)

theorem exported_mask_and_units_witness:
  "(\<exists>out1. MpasMeshDescriptor_to_scrip example_mesh [''prog''] = Inr out1
       \<and> mask_and_units out1 ''radians'')
   \<and> (\<exists>out2. LatLonGridDescriptor_to_scrip example_latlon = Inr out2
       \<and> mask_and_units out2 (self_units example_latlon))
   \<and> (\<exists>out3. ProjectionGridDescriptor_to_scrip example_projected = Inr out3
       \<and> mask_and_units out3 ''degrees'')"
proof -
  obtain out1 where h1: "MpasMeshDescriptor_to_scrip example_mesh [''prog''] = Inr out1"
    using example_mesh_to_scrip by blast
  obtain out2 where h2: "LatLonGridDescriptor_to_scrip example_latlon = Inr out2"
    using example_latlon_to_scrip by blast
  obtain out3 where h3: "ProjectionGridDescriptor_to_scrip example_projected = Inr out3"
    using example_projected_to_scrip by blast
  from exported_mask_and_units [of example_mesh "[''prog'']" out1 example_latlon out2
      example_projected out3] h1 h2 h3
  show ?thesis by blast
qed

subsection \<open>Vertex ids out of range\<close>












subsection \<open>Projection failures\<close>













end
